theory Spec2Isabelle
  imports Complex_Main
begin

section \<open>Python values used by models.py\<close>

text \<open>
  Exceptions are values: every function of the module that can raise returns
  \<open>error + 'a\<close>, with \<open>Inl\<close> for the exception that leaves the function.
\<close>

datatype error =
    TypeError | ValueError | IndexError | KeyError | IOError
  | NotImplementedError | AssertionError | AttributeError | UnpicklingError
  | UnboundLocalError

definition bindE :: "error + 'a \<Rightarrow> ('a \<Rightarrow> error + 'b) \<Rightarrow> error + 'b" where
  "bindE m f = (case m of Inl e \<Rightarrow> Inl e | Inr x \<Rightarrow> f x)"

subsection \<open>collections.OrderedDict\<close>

text \<open>
  An \<open>OrderedDict\<close> is the list of its items in insertion order. Assigning to a key
  that is present replaces the value where it stands; a new key goes to the end.
\<close>

type_synonym ('k, 'v) ordered_dict = "('k \<times> 'v) list"

fun od_setitem :: "('k, 'v) ordered_dict \<Rightarrow> 'k \<Rightarrow> 'v \<Rightarrow> ('k, 'v) ordered_dict" where
  "od_setitem [] k v = [(k, v)]"
| "od_setitem ((k', v') # d) k v =
     (if k' = k then (k, v) # d else (k', v') # od_setitem d k v)"

definition od_getitem :: "('k, 'v) ordered_dict \<Rightarrow> 'k \<Rightarrow> error + 'v" where
  "od_getitem d k = (case map_of d k of None \<Rightarrow> Inl KeyError | Some v \<Rightarrow> Inr v)"

definition od_keys :: "('k, 'v) ordered_dict \<Rightarrow> 'k list" where
  "od_keys d = map fst d"

definition od_values :: "('k, 'v) ordered_dict \<Rightarrow> 'v list" where
  "od_values d = map snd d"

text \<open>\<open>d.popitem(last=True)\<close>: the dict without its last item, \<open>KeyError\<close> when empty.\<close>

definition od_popitem :: "('k, 'v) ordered_dict \<Rightarrow> error + ('k, 'v) ordered_dict" where
  "od_popitem d = (if d = [] then Inl KeyError else Inr (butlast d))"

text \<open>\<open>xs[-1]\<close> on a Python list.\<close>

definition last_item :: "'a list \<Rightarrow> error + 'a" where
  "last_item xs = (if xs = [] then Inl IndexError else Inr (last xs))"

section \<open>Layer declarations\<close>

text \<open>
  The module declares Lasagne layers and never computes with them. A layer object is
  the term that declares it: the constructor, the layer object(s) it was given as input
  and the literal hyperparameters, in the order of the calls in \<open>models.py\<close>. An
  argument that some call omits or passes as \<open>None\<close> is an \<open>option\<close>. The library's
  own validation of hyperparameters is outside the module and is not modelled.
\<close>

datatype nonlinearity = LeakyRectify real | softmax

datatype init = Orthogonal real | Constant real

datatype pad = same

datatype pool_function = T_mean | T_max

datatype layer =
    InputLayer "int option" "int list" string
      \<comment> \<open>shape \<open>(batch_size, d1, ...)\<close>, name\<close>
  | ConvLayer layer int int "int \<times> int" pad bool nonlinearity init init
      \<comment> \<open>incoming, num_filters, filter_size, stride, pad, untie_biases, nonlinearity, W, b\<close>
  | DropoutLayer layer real
      \<comment> \<open>incoming, p\<close>
  | MaxPool2DLayer layer int "int \<times> int" "string option"
      \<comment> \<open>incoming, pool_size, stride, name\<close>
  | DenseLayer layer int "nonlinearity option" "init option" "init option" "string option"
      \<comment> \<open>incoming, num_units, nonlinearity, W, b, name\<close>
  | FeaturePoolLayer layer int
      \<comment> \<open>incoming, pool_size\<close>
  | ConcatLayer "layer list" "int option"
      \<comment> \<open>incomings, axis\<close>
  | ReshapeLayer layer "int list"
      \<comment> \<open>incoming, shape\<close>
  | NonlinearityLayer layer nonlinearity
      \<comment> \<open>incoming, nonlinearity\<close>
  | GlobalPoolLayer layer pool_function
      \<comment> \<open>incoming, pool_function\<close>

text \<open>The layers a layer reads from (\<open>input_layer\<close>, \<open>input_layers\<close>).\<close>

fun incomings :: "layer \<Rightarrow> layer list" where
  "incomings (InputLayer bs dims name) = []"
| "incomings (ConvLayer l nf fs st pd ub nl W b) = [l]"
| "incomings (DropoutLayer l p) = [l]"
| "incomings (MaxPool2DLayer l ps st name) = [l]"
| "incomings (DenseLayer l nu nl W b name) = [l]"
| "incomings (FeaturePoolLayer l ps) = [l]"
| "incomings (ConcatLayer ls axis) = ls"
| "incomings (ReshapeLayer l shp) = [l]"
| "incomings (NonlinearityLayer l nl) = [l]"
| "incomings (GlobalPoolLayer l pf) = [l]"

text \<open>
  \<open>layer.output_shape[1]\<close>, the only component of a layer's output shape that the
  module reads. It is the library's shape inference restricted to index 1: the number
  of filters or units of a convolution or dense layer, the sum over the inputs of a
  concatenation along axis 1, the floor quotient of a feature pooling, the literal
  entry of a reshape, and the input's value for the layers that keep axis 1.
  \<open>IndexError\<close> is the tuple index out of range.
\<close>

fun output_shape_1 :: "layer \<Rightarrow> error + int" where
  "output_shape_1 (InputLayer bs dims name) =
     (case dims of [] \<Rightarrow> Inl IndexError | d # _ \<Rightarrow> Inr d)"
| "output_shape_1 (ConvLayer l nf fs st pd ub nl W b) = Inr nf"
| "output_shape_1 (DropoutLayer l p) = output_shape_1 l"
| "output_shape_1 (MaxPool2DLayer l ps st name) = output_shape_1 l"
| "output_shape_1 (DenseLayer l nu nl W b name) = Inr nu"
| "output_shape_1 (FeaturePoolLayer l ps) =
     bindE (output_shape_1 l)
       (\<lambda>d. if ps = 0 then Inl ValueError else Inr (d div ps))"
| "output_shape_1 (ConcatLayer ls axis) =
     (if axis = None \<or> axis = Some 1
      then fold (\<lambda>l acc. bindE acc (\<lambda>s. bindE (output_shape_1 l) (\<lambda>d. Inr (s + d))))
             ls (Inr 0)
      else (case ls of [] \<Rightarrow> Inl IndexError | l # _ \<Rightarrow> output_shape_1 l))"
| "output_shape_1 (ReshapeLayer l shp) =
     (case shp of _ # d # _ \<Rightarrow> Inr d | _ \<Rightarrow> Inl IndexError)"
| "output_shape_1 (NonlinearityLayer l nl) = output_shape_1 l"
| "output_shape_1 (GlobalPoolLayer l pf) = output_shape_1 l"

section \<open>JFnet.build_model: the declared network\<close>

type_synonym network = "(string, layer) ordered_dict"

text \<open>
  Each statement \<open>net[k] = Layer(net[src], ...)\<close> reads one entry of the dict and
  assigns one; \<open>add_layer\<close> is that statement, with the constructor call as a function of
  the layer read.
\<close>

definition add_layer :: "string \<Rightarrow> string \<Rightarrow> (layer \<Rightarrow> layer) \<Rightarrow> network \<Rightarrow> error + network" where
  "add_layer k src mk net = bindE (od_getitem net src) (\<lambda>l. Inr (od_setitem net k (mk l)))"

definition conv :: "int \<Rightarrow> int \<Rightarrow> int \<times> int \<Rightarrow> layer \<Rightarrow> layer" where
  "conv num_filters filter_size stride l =
     ConvLayer l num_filters filter_size stride same True
       (LeakyRectify 0.5) (Orthogonal 1.0) (Constant 0.1)"

text \<open>Lines 126 to 238 of \<open>models.py\<close>, one step per assignment, in the order written.\<close>

definition build_steps ::
  "int \<Rightarrow> int \<Rightarrow> int \<Rightarrow> int option \<Rightarrow> real \<Rightarrow> (network \<Rightarrow> error + network) list" where
  "build_steps width height n_classes batch_size p_conv =
   [ \<lambda>net. Inr (od_setitem net ''0'' (InputLayer batch_size [3, width, height] ''images'')),
     add_layer ''1'' ''0'' (conv 32 7 (2, 2)),
     add_layer ''1d'' ''1'' (\<lambda>l. DropoutLayer l p_conv),
     add_layer ''2'' ''1d'' (\<lambda>l. MaxPool2DLayer l 3 (2, 2) None),
     add_layer ''3'' ''2'' (conv 32 3 (1, 1)),
     add_layer ''3d'' ''3'' (\<lambda>l. DropoutLayer l p_conv),
     add_layer ''4'' ''3d'' (conv 32 3 (1, 1)),
     add_layer ''4d'' ''4'' (\<lambda>l. DropoutLayer l p_conv),
     add_layer ''5'' ''4d'' (\<lambda>l. MaxPool2DLayer l 3 (2, 2) None),
     add_layer ''6'' ''5'' (conv 64 3 (1, 1)),
     add_layer ''6d'' ''6'' (\<lambda>l. DropoutLayer l p_conv),
     add_layer ''7'' ''6d'' (conv 64 3 (1, 1)),
     add_layer ''7d'' ''7'' (\<lambda>l. DropoutLayer l p_conv),
     add_layer ''8'' ''7d'' (\<lambda>l. MaxPool2DLayer l 3 (2, 2) None),
     add_layer ''9'' ''8'' (conv 128 3 (1, 1)),
     add_layer ''9d'' ''9'' (\<lambda>l. DropoutLayer l p_conv),
     add_layer ''10'' ''9d'' (conv 128 3 (1, 1)),
     add_layer ''10d'' ''10'' (\<lambda>l. DropoutLayer l p_conv),
     add_layer ''11'' ''10d'' (conv 128 3 (1, 1)),
     add_layer ''11d'' ''11'' (\<lambda>l. DropoutLayer l p_conv),
     add_layer ''12'' ''11d'' (conv 128 3 (1, 1)),
     add_layer ''12d'' ''12'' (\<lambda>l. DropoutLayer l p_conv),
     add_layer ''13'' ''12d'' (\<lambda>l. MaxPool2DLayer l 3 (2, 2) None),
     add_layer ''14'' ''13'' (conv 256 3 (1, 1)),
     add_layer ''14d'' ''14'' (\<lambda>l. DropoutLayer l p_conv),
     add_layer ''15'' ''14d'' (conv 256 3 (1, 1)),
     add_layer ''15d'' ''15'' (\<lambda>l. DropoutLayer l p_conv),
     add_layer ''16'' ''15'' (conv 256 3 (1, 1)),
     add_layer ''16d'' ''16'' (\<lambda>l. DropoutLayer l p_conv),
     add_layer ''17'' ''16d'' (conv 256 3 (1, 1)),
     add_layer ''17d'' ''17'' (\<lambda>l. DropoutLayer l p_conv),
     add_layer ''18'' ''17d'' (\<lambda>l. MaxPool2DLayer l 3 (2, 2) (Some ''coarse_last_pool'')),
     add_layer ''19'' ''18'' (\<lambda>l. DropoutLayer l 0.5),
     add_layer ''20'' ''19''
       (\<lambda>l. DenseLayer l 1024 None (Some (Orthogonal 1.0)) (Some (Constant 0.1))
              (Some ''first_fc_0'')),
     add_layer ''21'' ''20'' (\<lambda>l. FeaturePoolLayer l 2),
     \<lambda>net. Inr (od_setitem net ''22'' (InputLayer batch_size [2] ''imgdim'')),
     \<lambda>net. bindE (od_getitem net ''21'') (\<lambda>l21. bindE (od_getitem net ''22'') (\<lambda>l22.
            Inr (od_setitem net ''23'' (ConcatLayer [l21, l22] None)))),
     \<lambda>net. bindE (od_getitem net ''23'') (\<lambda>l23. bindE (od_getitem net ''23'') (\<lambda>l23'.
            bindE (output_shape_1 l23') (\<lambda>d.
            Inr (od_setitem net ''24'' (ReshapeLayer l23 [- 1, d * 2]))))),
     add_layer ''25'' ''24'' (\<lambda>l. DropoutLayer l 0.5),
     add_layer ''26'' ''25''
       (\<lambda>l. DenseLayer l 1024 None (Some (Orthogonal 1.0)) (Some (Constant 0.1))
              (Some ''combine_repr_fc'')),
     add_layer ''27'' ''26'' (\<lambda>l. FeaturePoolLayer l 2),
     add_layer ''28'' ''27'' (\<lambda>l. DropoutLayer l 0.5),
     add_layer ''29'' ''28''
       (\<lambda>l. DenseLayer l (n_classes * 2) None (Some (Orthogonal 1.0))
              (Some (Constant 0.1)) None),
     add_layer ''30'' ''29'' (\<lambda>l. ReshapeLayer l [- 1, n_classes]),
     add_layer ''31'' ''30'' (\<lambda>l. NonlinearityLayer l softmax) ]"

text \<open>Running the statements in order from the empty dict; an exception stops the run.\<close>

definition run_steps :: "('s \<Rightarrow> error + 's) list \<Rightarrow> 's \<Rightarrow> error + 's" where
  "run_steps steps s = fold (\<lambda>step acc. bindE acc step) steps (Inr s)"

definition declare_layers ::
  "int \<Rightarrow> int \<Rightarrow> int \<Rightarrow> int option \<Rightarrow> real \<Rightarrow> error + network" where
  "declare_layers width height n_classes batch_size p_conv =
     run_steps (build_steps width height n_classes batch_size p_conv) []"

section \<open>Arrays, symbolic variables and models\<close>

text \<open>
  A numpy array is its shape and its elements in row-major order. The element type is
  a parameter: the module never computes with an element.
\<close>

datatype 'a ndarray = Ndarray (shape: "nat list") (data: "'a list")

text \<open>
  Theano's symbolic variables are names; the variable an \<open>InputLayer\<close> creates is
  named by the layer. A compiled function is what it was compiled from: the input
  variables, and the layer whose output it computes with the \<open>deterministic\<close> flag.
\<close>

datatype var = tensor4 string | ivector string | input_var layer

datatype theano_function = Function "var list" layer bool

record model =
  self_net :: network
  self_inputs :: "(string, var) ordered_dict"
  self_targets :: "(string, var) ordered_dict"
  self_predict :: "theano_function option"
  self_predict_stoch :: "theano_function option"

subsection \<open>Files and the state of the process\<close>

text \<open>
  A pickle holds a list of arrays (the original weight dump), a dict (a weight file
  with a \<open>'param values'\<close> entry) or a model with the values of its parameters; an
  \<open>.npz\<close> archive holds named arrays in the order written. The state is the file
  system, the current value of every parameter variable (a layer and the name of one
  of its parameters) and the lines printed. A parameter that was never assigned has the
  value its initialiser drew, which is whatever the state holds for it. Writing a file
  always succeeds.
\<close>

datatype 'a pickled =
    PList "'a ndarray list"
  | PDict "(string, 'a ndarray list) ordered_dict"
  | PModel model "'a ndarray list"

datatype 'a file_content = Npz "(string, 'a ndarray) ordered_dict" | Pkl "'a pickled"

type_synonym pvar = "layer \<times> string"

record 'a env =
  files :: "string \<rightharpoonup> 'a file_content"
  pvals :: "pvar \<Rightarrow> 'a ndarray"
  stdout :: "string list"

definition write_file :: "'a env \<Rightarrow> string \<Rightarrow> 'a file_content \<Rightarrow> 'a env" where
  "write_file env fname content = env\<lparr>files := (files env)(fname \<mapsto> content)\<rparr>"

text \<open>\<open>pickle.load(open(filename))\<close> and \<open>np.load(filename)\<close>.\<close>

definition pickle_load :: "'a env \<Rightarrow> string \<Rightarrow> error + 'a pickled" where
  "pickle_load env fname =
     (case files env fname of
        None \<Rightarrow> Inl IOError
      | Some (Pkl obj) \<Rightarrow> Inr obj
      | Some (Npz _) \<Rightarrow> Inl UnpicklingError)"

definition np_load :: "'a env \<Rightarrow> string \<Rightarrow> error + (string, 'a ndarray) ordered_dict" where
  "np_load env fname =
     (case files env fname of
        None \<Rightarrow> Inl IOError
      | Some (Npz f) \<Rightarrow> Inr f
      | Some (Pkl _) \<Rightarrow> Inl AttributeError)"

text \<open>\<open>obj[key]\<close> on an unpickled object: only a dict can be indexed by a string.\<close>

fun pickled_getitem :: "'a pickled \<Rightarrow> string \<Rightarrow> error + 'a ndarray list" where
  "pickled_getitem (PDict d) k = od_getitem d k"
| "pickled_getitem (PList vs) k = Inl TypeError"
| "pickled_getitem (PModel m vs) k = Inl TypeError"

text \<open>An unpickled object passed where a list of arrays is expected.\<close>

fun as_values :: "'a pickled \<Rightarrow> error + 'a ndarray list" where
  "as_values (PList vs) = Inr vs"
| "as_values (PDict d) = Inl TypeError"
| "as_values (PModel m vs) = Inl TypeError"

subsection \<open>Strings\<close>

definition endswith :: "string \<Rightarrow> string \<Rightarrow> bool" where
  "endswith s suf = (length suf \<le> length s \<and> drop (length s - length suf) s = suf)"

text \<open>\<open>sub in s\<close> on strings.\<close>

definition str_in :: "string \<Rightarrow> string \<Rightarrow> bool" where
  "str_in sub s = list_ex (\<lambda>i. take (length sub) (drop i s) = sub) [0..<Suc (length s)]"

definition digit :: "nat \<Rightarrow> char" where
  "digit d = ''0123456789'' ! d"

text \<open>\<open>'%d' % n\<close> for a natural number.\<close>

function str_nat :: "nat \<Rightarrow> string" where
  "str_nat n = (if n < 10 then [digit n] else str_nat (n div 10) @ [digit (n mod 10)])"
  by pat_completeness auto
termination
  by (relation "measure id") auto

definition arr_name :: "nat \<Rightarrow> string" where
  "arr_name i = ''arr_'' @ str_nat i"

fun mapE :: "('a \<Rightarrow> error + 'b) \<Rightarrow> 'a list \<Rightarrow> error + 'b list" where
  "mapE f [] = Inr []"
| "mapE f (x # xs) = bindE (f x) (\<lambda>y. bindE (mapE f xs) (\<lambda>ys. Inr (y # ys)))"

section \<open>The parameters of a network\<close>

text \<open>
  Lasagne's parameter interface, as far as the module calls it. A convolution or dense
  layer owns \<open>W\<close> and \<open>b\<close>; \<open>get_all_layers\<close> lists the layers a layer depends on,
  inputs first and each once, by a depth-first visit that skips the layers already
  listed; \<open>get_all_params\<close> chains their parameters; \<open>set_all_param_values\<close>
  raises \<open>ValueError\<close> when the number of values, or the shape of one, does not fit.
\<close>

fun get_params :: "layer \<Rightarrow> string list" where
  "get_params (ConvLayer l nf fs st pd ub nl W b) = [''W'', ''b'']"
| "get_params (DenseLayer l nu nl W b name) = [''W'', ''b'']"
| "get_params l = []"

lemma size_incomings: "x \<in> set (incomings l) \<Longrightarrow> size x < size l"
proof (cases l)
  case (ConcatLayer ls axis)
  assume "x \<in> set (incomings l)"
  with ConcatLayer have "x \<in> set ls" by simp
  then have "size x \<le> size_list size ls" by (rule size_list_estimation') simp
  with ConcatLayer show ?thesis by simp
qed auto

function visit :: "layer \<Rightarrow> layer list \<Rightarrow> layer list" where
  "visit l result =
     (if l \<in> set result then result
      else fold (\<lambda>x acc. visit x acc) (incomings l) result @ [l])"
  by pat_completeness auto
termination
  by (relation "measure (\<lambda>(l, result). size l)") (auto simp: size_incomings)

definition get_all_layers :: "layer list \<Rightarrow> layer list" where
  "get_all_layers ls = fold (\<lambda>l result. visit l result) ls []"

fun unique :: "'a list \<Rightarrow> 'a list" where
  "unique [] = []"
| "unique (x # xs) = x # unique (filter (\<lambda>y. y \<noteq> x) xs)"

definition get_all_params :: "layer list \<Rightarrow> pvar list" where
  "get_all_params ls =
     unique (concat (map (\<lambda>l. map (\<lambda>name. (l, name)) (get_params l)) (get_all_layers ls)))"

definition get_all_param_values :: "'a env \<Rightarrow> layer list \<Rightarrow> 'a ndarray list" where
  "get_all_param_values env ls = map (pvals env) (get_all_params ls)"

fun set_values :: "'a env \<Rightarrow> (pvar \<times> 'a ndarray) list \<Rightarrow> error + 'a env" where
  "set_values env [] = Inr env"
| "set_values env ((p, v) # pvs) =
     (if shape (pvals env p) \<noteq> shape v then Inl ValueError
      else set_values (env\<lparr>pvals := (pvals env)(p := v)\<rparr>) pvs)"

definition set_all_param_values ::
  "'a env \<Rightarrow> layer list \<Rightarrow> 'a ndarray list \<Rightarrow> error + 'a env" where
  "set_all_param_values env ls vals =
     (let params = get_all_params ls
      in if length params \<noteq> length vals then Inl ValueError
         else set_values env (zip params vals))"

section \<open>load_weights, save_weights, load_model, save_model\<close>

definition load_weights :: "'a env \<Rightarrow> layer \<Rightarrow> string \<Rightarrow> error + 'a env" where
  "load_weights env layer filename =
     (if endswith filename ''.npz'' then
        bindE (np_load env filename) (\<lambda>f.
        bindE (mapE (\<lambda>i. od_getitem f (arr_name i)) [0..<length (od_keys f)])
          (\<lambda>param_values. set_all_param_values env [layer] param_values))
      else if endswith filename ''.pkl'' then
        bindE (pickle_load env filename) (\<lambda>model.
        bindE (pickled_getitem model ''param values'')
          (\<lambda>vals. set_all_param_values env [layer] vals))
      else Inl NotImplementedError)"

text \<open>\<open>np.savez_compressed(filename, *arrays)\<close> names the arrays \<open>arr_0\<close>, \<open>arr_1\<close>, ...\<close>

definition savez :: "'a ndarray list \<Rightarrow> 'a file_content" where
  "savez arrays = Npz (zip (map arr_name [0..<length arrays]) arrays)"

definition save_weights :: "'a env \<Rightarrow> layer \<Rightarrow> string \<Rightarrow> error + 'a env" where
  "save_weights env layer filename =
     (if endswith filename ''.npz''
      then Inr (write_file env filename (savez (get_all_param_values env [layer])))
      else Inl NotImplementedError)"

definition load_model :: "'a env \<Rightarrow> string \<Rightarrow> error + 'a pickled" where
  "load_model env filename = pickle_load env filename"

text \<open>Pickling a model writes its layers together with the values of their parameters.\<close>

definition save_model :: "'a env \<Rightarrow> model \<Rightarrow> string \<Rightarrow> 'a env" where
  "save_model env m filename =
     write_file env filename
       (Pkl (PModel m (get_all_param_values env (od_values (self_net m)))))"

section \<open>The classes Model, JFnet and BCNN\<close>

definition Model_init :: "network \<Rightarrow> model" where
  "Model_init network =
     \<lparr> self_net = network,
       self_inputs = [(''X'', tensor4 ''X'')],
       self_targets = [(''y'', ivector ''y'')],
       self_predict = None,
       self_predict_stoch = None \<rparr>"

definition get_output_layer :: "model \<Rightarrow> error + layer" where
  "get_output_layer self = last_item (od_values (self_net self))"

text \<open>\<open>layer.input_var\<close>: only an \<open>InputLayer\<close> has the attribute.\<close>

fun input_var_of :: "layer \<Rightarrow> error + var" where
  "input_var_of (InputLayer bs dims name) = Inr (input_var (InputLayer bs dims name))"
| "input_var_of l = Inl AttributeError"

definition ORIGINAL_WEIGHTS :: string where
  "ORIGINAL_WEIGHTS = ''models/jeffrey_df/2015_07_17_123003_PARAMSDUMP.pkl''"

text \<open>
  \<open>JFnet.build_model\<close>: the declarations, then the optional loading of the pickled
  weights into the parameters below layer \<open>'31'\<close>.
\<close>

definition build_model ::
  "'a env \<Rightarrow> int \<Rightarrow> int \<Rightarrow> string option \<Rightarrow> int \<Rightarrow> int option \<Rightarrow> real
     \<Rightarrow> error + (network \<times> 'a env)" where
  "build_model env width height filename n_classes batch_size p_conv =
     bindE (declare_layers width height n_classes batch_size p_conv) (\<lambda>net.
       case filename of
         None \<Rightarrow> Inr (net, env)
       | Some fname \<Rightarrow>
           bindE (pickle_load env fname) (\<lambda>weights.
           bindE (od_getitem net ''31'') (\<lambda>l31.
           bindE (as_values weights) (\<lambda>vals.
           bindE (set_all_param_values env [l31] vals) (\<lambda>env'.
           Inr (net, env'))))))"

definition JFnet_init :: "'a env \<Rightarrow> int \<Rightarrow> int \<Rightarrow> error + (model \<times> 'a env)" where
  "JFnet_init env width height =
     bindE (build_model env width height (Some ORIGINAL_WEIGHTS) 5 None 0.0)
       (\<lambda>(network, env).
     let self = Model_init network in
     bindE (od_getitem (self_net self) ''0'') (\<lambda>l0. bindE (input_var_of l0) (\<lambda>v0.
     let self = self\<lparr>self_inputs := od_setitem (self_inputs self) ''X'' v0\<rparr> in
     bindE (od_getitem (self_net self) ''22'') (\<lambda>l22. bindE (input_var_of l22) (\<lambda>v22.
     Inr (self\<lparr>self_inputs := od_setitem (self_inputs self) ''img_dim'' v22\<rparr>,
          env))))))"

text \<open>
  The loop \<open>while not d.keys()[-1] == key: d.popitem(last=True)\<close>, written in
  \<open>BCNN.__init__\<close> and again in \<open>weights2pickle\<close>. The condition is evaluated
  before every pop.
\<close>

function remove_layers_after ::
  "('k, 'v) ordered_dict \<Rightarrow> 'k \<Rightarrow> error + ('k, 'v) ordered_dict" where
  "remove_layers_after network last_layer =
     (case last_item (od_keys network) of
        Inl e \<Rightarrow> Inl e
      | Inr k \<Rightarrow>
          if \<not> k = last_layer
          then (case od_popitem network of
                  Inl e \<Rightarrow> Inl e
                | Inr network' \<Rightarrow> remove_layers_after network' last_layer)
          else Inr network)"
  by pat_completeness auto
termination
  by (relation "measure (\<lambda>(network, last_layer). length network)")
    (auto simp: od_popitem_def split: if_splits)

definition BCNN_init ::
  "'a env \<Rightarrow> real \<Rightarrow> string \<Rightarrow> string option \<Rightarrow> int \<Rightarrow> error + (model \<times> 'a env)" where
  "BCNN_init env p_conv last_layer weights n_classes =
     bindE (build_model env 512 512 (Some ORIGINAL_WEIGHTS) 5 None p_conv)
       (\<lambda>(network, env).
     bindE (remove_layers_after network last_layer) (\<lambda>network.
     bindE (od_getitem network last_layer) (\<lambda>l.
     let mean_pooled = GlobalPoolLayer l T_mean in
     bindE (od_getitem network last_layer) (\<lambda>l'.
     let max_pooled = GlobalPoolLayer l' T_max;
         network = od_setitem network ''global_pool''
                     (ConcatLayer [mean_pooled, max_pooled] (Some 1)) in
     bindE (od_getitem network ''global_pool'') (\<lambda>gp.
     let network = od_setitem network ''softmax_input''
                     (DenseLayer gp n_classes None None None None) in
     bindE (od_getitem network ''softmax_input'') (\<lambda>si.
     let network = od_setitem network ''logreg'' (NonlinearityLayer si softmax) in
     bindE (case weights of
              None \<Rightarrow> Inr env
            | Some w \<Rightarrow> bindE (od_getitem network ''logreg'') (\<lambda>lr. load_weights env lr w))
       (\<lambda>env.
     let self = Model_init network in
     bindE (od_getitem (self_net self) ''0'') (\<lambda>l0. bindE (input_var_of l0) (\<lambda>v0.
     Inr (self\<lparr>self_inputs := od_setitem (self_inputs self) ''X'' v0\<rparr>, env))))))))))"

section \<open>weights2pickle\<close>

definition weights2pickle :: "'a env \<Rightarrow> string \<Rightarrow> string \<Rightarrow> error + 'a env" where
  "weights2pickle env name output_layer =
     (if name \<notin> set [''bcnn1'', ''bcnn2''] then Inl AssertionError
      else
        bindE (if str_in ''bcnn1'' name
               then Inr (''models/weights_bcnn1_392bea6.npz'',
                         ''bcnn1_392bea6_'' @ output_layer @ ''.pkl'')
               else if str_in ''bcnn2'' name
               then Inr (''models/weights_bcnn2_b69aadd.npz'',
                         ''bcnn2_b69aadd_'' @ output_layer @ ''.pkl'')
               else Inl UnboundLocalError) (\<lambda>(weights, outfile).
        bindE (BCNN_init env 0.2 ''17'' (Some weights) 2) (\<lambda>(m, env).
        if output_layer \<notin> set (od_keys (self_net m)) then Inl AssertionError
        else
          bindE (remove_layers_after (self_net m) output_layer) (\<lambda>network.
          let m = m\<lparr>self_net := network\<rparr> in
          bindE (last_item (od_keys (self_net m))) (\<lambda>k.
          if \<not> k = output_layer then Inl AssertionError
          else
            let env = save_model env m outfile in
            Inr (env\<lparr>stdout := stdout env @ [''Saved model to '' @ outfile]\<rparr>))))))"

section \<open>Forward passes\<close>

text \<open>
  The compiled graph is executed by the backend, which is not part of the module:
  \<open>run f xs g\<close> is the array that the compiled function \<open>f\<close> returns on the inputs
  \<open>xs\<close> at the current parameter values, together with the next state of the random
  source \<open>g\<close> that dropout draws from. An input is a sequence of samples.
\<close>

type_synonym ('x, 'g, 'a) backend =
  "theano_function \<Rightarrow> 'x list list \<Rightarrow> 'g \<Rightarrow> 'a ndarray \<times> 'g"


definition predict ::
  "('x, 'g, 'a) backend \<Rightarrow> model \<Rightarrow> 'x list list \<Rightarrow> 'g \<Rightarrow> error + ('a ndarray \<times> model \<times> 'g)" where
  "predict run self xs g =
     bindE (case self_predict self of
              None \<Rightarrow>
                bindE (last_item (od_values (self_net self))) (\<lambda>l.
                let f = Function (od_values (self_inputs self)) l True
                in Inr (f, self\<lparr>self_predict := Some f\<rparr>))
            | Some f \<Rightarrow> Inr (f, self)) (\<lambda>(f, self).
     case run f xs g of (r, g') \<Rightarrow> Inr (r, self, g'))"








section \<open>Properties\<close>

text \<open>The keys of the network, in the order of their declaration.\<close>

definition layer_keys :: "string list" where
  "layer_keys =
     [''0'', ''1'', ''1d'', ''2'', ''3'', ''3d'', ''4'', ''4d'', ''5'', ''6'', ''6d'', ''7'',
      ''7d'', ''8'', ''9'', ''9d'', ''10'', ''10d'', ''11'', ''11d'', ''12'', ''12d'',
      ''13'', ''14'', ''14d'', ''15'', ''15d'', ''16'', ''16d'', ''17'', ''17d'', ''18'',
      ''19'', ''20'', ''21'', ''22'', ''23'', ''24'', ''25'', ''26'', ''27'', ''28'', ''29'',
      ''30'', ''31'']"

text \<open>
  A network is assembled sequentially, apart from the exempt keys, when every entry
  with a key that is not exempt has as its only input the layer of the entry before it.
\<close>

definition reads_previous :: "string list \<Rightarrow> network \<Rightarrow> bool" where
  "reads_previous exempt net =
     list_all (\<lambda>((k', l'), (k, l)). k \<in> set exempt \<or> incomings l = [l']) (zip net (tl net))"


text \<open>The digit a character stands for; the inverse of \<open>digit\<close> on \<open>0..9\<close>.\<close>

definition digit_value :: "char \<Rightarrow> nat" where
  "digit_value c = length (takeWhile (\<lambda>x. x \<noteq> c) ''0123456789'')"

text \<open>
  The three entries that \<open>BCNN.__init__\<close> appends for the layer \<open>l\<close> it kept last,
  and the model that it returns for the network \<open>network\<close>.
\<close>

definition head_layers :: "layer \<Rightarrow> int \<Rightarrow> network" where
  "head_layers l n_classes =
     (let gp = ConcatLayer [GlobalPoolLayer l T_mean, GlobalPoolLayer l T_max] (Some 1);
          si = DenseLayer gp n_classes None None None None
      in [(''global_pool'', gp), (''softmax_input'', si),
          (''logreg'', NonlinearityLayer si softmax)])"

definition logreg_layer :: "layer \<Rightarrow> int \<Rightarrow> layer" where
  "logreg_layer l n_classes = snd (last (head_layers l n_classes))"

definition BCNN_model :: "network \<Rightarrow> model" where
  "BCNN_model network =
     (Model_init network)
       \<lparr>self_inputs := [(''X'', input_var (InputLayer None [3, 512, 512] ''images''))]\<rparr>"

text \<open>The hash in the names of the weight file and of the pickle of a model.\<close>

definition model_hash :: "string \<Rightarrow> string" where
  "model_hash name = (if name = ''bcnn1'' then ''392bea6'' else ''b69aadd'')"

text \<open>
  The results of \<open>n\<close> successive calls of a stochastic function, each call starting
  from the state of the random source that the call before it left, and the state
  after the last call.
\<close>

fun passes :: "('g \<Rightarrow> 'r \<times> 'g) \<Rightarrow> nat \<Rightarrow> 'g \<Rightarrow> 'r list \<times> 'g" where
  "passes f 0 g = ([], g)"
| "passes f (Suc n) g =
     (case f g of (r, g') \<Rightarrow> case passes f n g' of (rs, g'') \<Rightarrow> (r # rs, g''))"

subsection \<open>Exceptions and statement sequences\<close>

lemma bindE_Inr [simp]: "bindE (Inr x) f = f x"
  by (simp add: bindE_def)

lemma bindE_Inl [simp]: "bindE (Inl e) f = Inl e"
  by (simp add: bindE_def)

lemma bindE_eq_Inr: "bindE m f = Inr y \<longleftrightarrow> (\<exists>x. m = Inr x \<and> f x = Inr y)"
  by (cases m) simp_all

lemma bindE_eq_Inl: "bindE m f = Inl e \<longleftrightarrow> m = Inl e \<or> (\<exists>x. m = Inr x \<and> f x = Inl e)"
  by (cases m) simp_all

lemma run_steps_Nil: "run_steps [] s = Inr s"
  by (simp add: run_steps_def)

lemma fold_bindE_Inl: "fold (\<lambda>step acc. bindE acc step) fs (Inl e) = Inl e"
  by (induction fs) simp_all

lemma run_steps_Cons: "run_steps (f # fs) s = bindE (f s) (run_steps fs)"
  by (cases "f s") (simp_all add: run_steps_def fold_bindE_Inl)

subsection \<open>The declared network\<close>

text \<open>
  The dict that the declarations build, with a name for every layer and the equation
  that declares it.
\<close>

lemma declare_layers_cases:
  obtains l0 l1 l1d l2 l3 l3d l4 l4d l5 l6 l6d l7 l7d l8 l9 l9d l10 l10d l11 l11d l12 l12d l13 l14
    l14d l15 l15d l16 l16d l17 l17d l18 l19 l20 l21 l22 l23 l24 l25 l26 l27 l28 l29 l30 l31
  where "declare_layers w h nc bs p =
     Inr [(''0'', l0), (''1'', l1), (''1d'', l1d), (''2'', l2), (''3'', l3), (''3d'', l3d),
         (''4'', l4), (''4d'', l4d), (''5'', l5), (''6'', l6), (''6d'', l6d), (''7'', l7),
         (''7d'', l7d), (''8'', l8), (''9'', l9), (''9d'', l9d), (''10'', l10),
         (''10d'', l10d), (''11'', l11), (''11d'', l11d), (''12'', l12), (''12d'', l12d),
         (''13'', l13), (''14'', l14), (''14d'', l14d), (''15'', l15), (''15d'', l15d),
         (''16'', l16), (''16d'', l16d), (''17'', l17), (''17d'', l17d), (''18'', l18),
         (''19'', l19), (''20'', l20), (''21'', l21), (''22'', l22), (''23'', l23),
         (''24'', l24), (''25'', l25), (''26'', l26), (''27'', l27), (''28'', l28),
         (''29'', l29), (''30'', l30), (''31'', l31)]"
    and "l0 = InputLayer bs [3, w, h] ''images''"
    and "l1 = conv 32 7 (2, 2) l0"
    and "l1d = DropoutLayer l1 p"
    and "l2 = MaxPool2DLayer l1d 3 (2, 2) None"
    and "l3 = conv 32 3 (1, 1) l2"
    and "l3d = DropoutLayer l3 p"
    and "l4 = conv 32 3 (1, 1) l3d"
    and "l4d = DropoutLayer l4 p"
    and "l5 = MaxPool2DLayer l4d 3 (2, 2) None"
    and "l6 = conv 64 3 (1, 1) l5"
    and "l6d = DropoutLayer l6 p"
    and "l7 = conv 64 3 (1, 1) l6d"
    and "l7d = DropoutLayer l7 p"
    and "l8 = MaxPool2DLayer l7d 3 (2, 2) None"
    and "l9 = conv 128 3 (1, 1) l8"
    and "l9d = DropoutLayer l9 p"
    and "l10 = conv 128 3 (1, 1) l9d"
    and "l10d = DropoutLayer l10 p"
    and "l11 = conv 128 3 (1, 1) l10d"
    and "l11d = DropoutLayer l11 p"
    and "l12 = conv 128 3 (1, 1) l11d"
    and "l12d = DropoutLayer l12 p"
    and "l13 = MaxPool2DLayer l12d 3 (2, 2) None"
    and "l14 = conv 256 3 (1, 1) l13"
    and "l14d = DropoutLayer l14 p"
    and "l15 = conv 256 3 (1, 1) l14d"
    and "l15d = DropoutLayer l15 p"
    and "l16 = conv 256 3 (1, 1) l15"
    and "l16d = DropoutLayer l16 p"
    and "l17 = conv 256 3 (1, 1) l16d"
    and "l17d = DropoutLayer l17 p"
    and "l18 = MaxPool2DLayer l17d 3 (2, 2) (Some ''coarse_last_pool'')"
    and "l19 = DropoutLayer l18 0.5"
    and "l20 = DenseLayer l19 1024 None (Some (Orthogonal 1.0)) (Some (Constant 0.1)) (Some ''first_fc_0'')"
    and "l21 = FeaturePoolLayer l20 2"
    and "l22 = InputLayer bs [2] ''imgdim''"
    and "l23 = ConcatLayer [l21, l22] None"
    and "l24 = ReshapeLayer l23 [- 1, 1028]"
    and "l25 = DropoutLayer l24 0.5"
    and "l26 = DenseLayer l25 1024 None (Some (Orthogonal 1.0)) (Some (Constant 0.1)) (Some ''combine_repr_fc'')"
    and "l27 = FeaturePoolLayer l26 2"
    and "l28 = DropoutLayer l27 0.5"
    and "l29 = DenseLayer l28 (nc * 2) None (Some (Orthogonal 1.0)) (Some (Constant 0.1)) None"
    and "l30 = ReshapeLayer l29 [- 1, nc]"
    and "l31 = NonlinearityLayer l30 softmax"
proof -
  define l0 where "l0 = InputLayer bs [3, w, h] ''images''"
  define l1 where "l1 = conv 32 7 (2, 2) l0"
  define l1d where "l1d = DropoutLayer l1 p"
  define l2 where "l2 = MaxPool2DLayer l1d 3 (2, 2) None"
  define l3 where "l3 = conv 32 3 (1, 1) l2"
  define l3d where "l3d = DropoutLayer l3 p"
  define l4 where "l4 = conv 32 3 (1, 1) l3d"
  define l4d where "l4d = DropoutLayer l4 p"
  define l5 where "l5 = MaxPool2DLayer l4d 3 (2, 2) None"
  define l6 where "l6 = conv 64 3 (1, 1) l5"
  define l6d where "l6d = DropoutLayer l6 p"
  define l7 where "l7 = conv 64 3 (1, 1) l6d"
  define l7d where "l7d = DropoutLayer l7 p"
  define l8 where "l8 = MaxPool2DLayer l7d 3 (2, 2) None"
  define l9 where "l9 = conv 128 3 (1, 1) l8"
  define l9d where "l9d = DropoutLayer l9 p"
  define l10 where "l10 = conv 128 3 (1, 1) l9d"
  define l10d where "l10d = DropoutLayer l10 p"
  define l11 where "l11 = conv 128 3 (1, 1) l10d"
  define l11d where "l11d = DropoutLayer l11 p"
  define l12 where "l12 = conv 128 3 (1, 1) l11d"
  define l12d where "l12d = DropoutLayer l12 p"
  define l13 where "l13 = MaxPool2DLayer l12d 3 (2, 2) None"
  define l14 where "l14 = conv 256 3 (1, 1) l13"
  define l14d where "l14d = DropoutLayer l14 p"
  define l15 where "l15 = conv 256 3 (1, 1) l14d"
  define l15d where "l15d = DropoutLayer l15 p"
  define l16 where "l16 = conv 256 3 (1, 1) l15"
  define l16d where "l16d = DropoutLayer l16 p"
  define l17 where "l17 = conv 256 3 (1, 1) l16d"
  define l17d where "l17d = DropoutLayer l17 p"
  define l18 where "l18 = MaxPool2DLayer l17d 3 (2, 2) (Some ''coarse_last_pool'')"
  define l19 where "l19 = DropoutLayer l18 (1 / 2)"
  define l20 where "l20 = DenseLayer l19 1024 None (Some (Orthogonal 1)) (Some (Constant (1 / 10))) (Some ''first_fc_0'')"
  define l21 where "l21 = FeaturePoolLayer l20 2"
  define l22 where "l22 = InputLayer bs [2] ''imgdim''"
  define l23 where "l23 = ConcatLayer [l21, l22] None"
  define l24 where "l24 = ReshapeLayer l23 [- 1, 1028]"
  define l25 where "l25 = DropoutLayer l24 (1 / 2)"
  define l26 where "l26 = DenseLayer l25 1024 None (Some (Orthogonal 1)) (Some (Constant (1 / 10))) (Some ''combine_repr_fc'')"
  define l27 where "l27 = FeaturePoolLayer l26 2"
  define l28 where "l28 = DropoutLayer l27 (1 / 2)"
  define l29 where "l29 = DenseLayer l28 (nc * 2) None (Some (Orthogonal 1)) (Some (Constant (1 / 10))) None"
  define l30 where "l30 = ReshapeLayer l29 [- 1, nc]"
  define l31 where "l31 = NonlinearityLayer l30 softmax"
  have s23: "output_shape_1 l23 = Inr 514"
    by (simp add: l23_def l22_def l21_def l20_def bindE_def)
  have main: "declare_layers w h nc bs p =
     Inr [(''0'', l0), (''1'', l1), (''1d'', l1d), (''2'', l2), (''3'', l3), (''3d'', l3d),
         (''4'', l4), (''4d'', l4d), (''5'', l5), (''6'', l6), (''6d'', l6d), (''7'', l7),
         (''7d'', l7d), (''8'', l8), (''9'', l9), (''9d'', l9d), (''10'', l10),
         (''10d'', l10d), (''11'', l11), (''11d'', l11d), (''12'', l12), (''12d'', l12d),
         (''13'', l13), (''14'', l14), (''14d'', l14d), (''15'', l15), (''15d'', l15d),
         (''16'', l16), (''16d'', l16d), (''17'', l17), (''17d'', l17d), (''18'', l18),
         (''19'', l19), (''20'', l20), (''21'', l21), (''22'', l22), (''23'', l23),
         (''24'', l24), (''25'', l25), (''26'', l26), (''27'', l27), (''28'', l28),
         (''29'', l29), (''30'', l30), (''31'', l31)]"
    by (simp add: declare_layers_def build_steps_def run_steps_Cons run_steps_Nil bindE_Inr
        add_layer_def od_getitem_def s23
        l0_def [symmetric] l1_def [symmetric] l1d_def [symmetric] l2_def [symmetric]
        l3_def [symmetric] l3d_def [symmetric] l4_def [symmetric] l4d_def [symmetric]
        l5_def [symmetric] l6_def [symmetric] l6d_def [symmetric] l7_def [symmetric]
        l7d_def [symmetric] l8_def [symmetric] l9_def [symmetric] l9d_def [symmetric]
        l10_def [symmetric] l10d_def [symmetric] l11_def [symmetric] l11d_def [symmetric]
        l12_def [symmetric] l12d_def [symmetric] l13_def [symmetric] l14_def [symmetric]
        l14d_def [symmetric] l15_def [symmetric] l15d_def [symmetric] l16_def [symmetric]
        l16d_def [symmetric] l17_def [symmetric] l17d_def [symmetric] l18_def [symmetric]
        l19_def [symmetric] l20_def [symmetric] l21_def [symmetric] l22_def [symmetric]
        l23_def [symmetric] l24_def [symmetric] l25_def [symmetric] l26_def [symmetric]
        l27_def [symmetric] l28_def [symmetric] l29_def [symmetric] l30_def [symmetric]
        l31_def [symmetric])
  have e19: "l19 = DropoutLayer l18 0.5"
    by (simp add: l19_def)
  have e20: "l20 = DenseLayer l19 1024 None (Some (Orthogonal 1.0)) (Some (Constant 0.1)) (Some ''first_fc_0'')"
    by (simp add: l20_def)
  have e25: "l25 = DropoutLayer l24 0.5"
    by (simp add: l25_def)
  have e26: "l26 = DenseLayer l25 1024 None (Some (Orthogonal 1.0)) (Some (Constant 0.1)) (Some ''combine_repr_fc'')"
    by (simp add: l26_def)
  have e28: "l28 = DropoutLayer l27 0.5"
    by (simp add: l28_def)
  have e29: "l29 = DenseLayer l28 (nc * 2) None (Some (Orthogonal 1.0)) (Some (Constant 0.1)) None"
    by (simp add: l29_def)
  from main l0_def l1_def l1d_def l2_def l3_def l3d_def l4_def l4d_def l5_def l6_def l6d_def l7_def
    l7d_def l8_def l9_def l9d_def l10_def l10d_def l11_def l11d_def l12_def l12d_def l13_def
    l14_def l14d_def l15_def l15d_def l16_def l16d_def l17_def l17d_def l18_def e19 e20
    l21_def l22_def l23_def l24_def e25 e26 l27_def e28 e29 l30_def l31_def
  show ?thesis by (rule that)
qed

lemma declare_layers_keys:
  "\<exists>net. declare_layers w h nc bs p = Inr net \<and> od_keys net = layer_keys"
proof -
  obtain l0 l1 l1d l2 l3 l3d l4 l4d l5 l6 l6d l7 l7d l8 l9 l9d l10 l10d l11 l11d l12 l12d l13 l14
    l14d l15 l15d l16 l16d l17 l17d l18 l19 l20 l21 l22 l23 l24 l25 l26 l27 l28 l29 l30 l31
    where net: "declare_layers w h nc bs p =
     Inr [(''0'', l0), (''1'', l1), (''1d'', l1d), (''2'', l2), (''3'', l3), (''3d'', l3d),
         (''4'', l4), (''4d'', l4d), (''5'', l5), (''6'', l6), (''6d'', l6d), (''7'', l7),
         (''7d'', l7d), (''8'', l8), (''9'', l9), (''9d'', l9d), (''10'', l10),
         (''10d'', l10d), (''11'', l11), (''11d'', l11d), (''12'', l12), (''12d'', l12d),
         (''13'', l13), (''14'', l14), (''14d'', l14d), (''15'', l15), (''15d'', l15d),
         (''16'', l16), (''16d'', l16d), (''17'', l17), (''17d'', l17d), (''18'', l18),
         (''19'', l19), (''20'', l20), (''21'', l21), (''22'', l22), (''23'', l23),
         (''24'', l24), (''25'', l25), (''26'', l26), (''27'', l27), (''28'', l28),
         (''29'', l29), (''30'', l30), (''31'', l31)]"
    and l0: "l0 = InputLayer bs [3, w, h] ''images''"
    and l1: "l1 = conv 32 7 (2, 2) l0"
    and l1d: "l1d = DropoutLayer l1 p"
    and l2: "l2 = MaxPool2DLayer l1d 3 (2, 2) None"
    and l3: "l3 = conv 32 3 (1, 1) l2"
    and l3d: "l3d = DropoutLayer l3 p"
    and l4: "l4 = conv 32 3 (1, 1) l3d"
    and l4d: "l4d = DropoutLayer l4 p"
    and l5: "l5 = MaxPool2DLayer l4d 3 (2, 2) None"
    and l6: "l6 = conv 64 3 (1, 1) l5"
    and l6d: "l6d = DropoutLayer l6 p"
    and l7: "l7 = conv 64 3 (1, 1) l6d"
    and l7d: "l7d = DropoutLayer l7 p"
    and l8: "l8 = MaxPool2DLayer l7d 3 (2, 2) None"
    and l9: "l9 = conv 128 3 (1, 1) l8"
    and l9d: "l9d = DropoutLayer l9 p"
    and l10: "l10 = conv 128 3 (1, 1) l9d"
    and l10d: "l10d = DropoutLayer l10 p"
    and l11: "l11 = conv 128 3 (1, 1) l10d"
    and l11d: "l11d = DropoutLayer l11 p"
    and l12: "l12 = conv 128 3 (1, 1) l11d"
    and l12d: "l12d = DropoutLayer l12 p"
    and l13: "l13 = MaxPool2DLayer l12d 3 (2, 2) None"
    and l14: "l14 = conv 256 3 (1, 1) l13"
    and l14d: "l14d = DropoutLayer l14 p"
    and l15: "l15 = conv 256 3 (1, 1) l14d"
    and l15d: "l15d = DropoutLayer l15 p"
    and l16: "l16 = conv 256 3 (1, 1) l15"
    and l16d: "l16d = DropoutLayer l16 p"
    and l17: "l17 = conv 256 3 (1, 1) l16d"
    and l17d: "l17d = DropoutLayer l17 p"
    and l18: "l18 = MaxPool2DLayer l17d 3 (2, 2) (Some ''coarse_last_pool'')"
    and l19: "l19 = DropoutLayer l18 0.5"
    and l20: "l20 = DenseLayer l19 1024 None (Some (Orthogonal 1.0)) (Some (Constant 0.1)) (Some ''first_fc_0'')"
    and l21: "l21 = FeaturePoolLayer l20 2"
    and l22: "l22 = InputLayer bs [2] ''imgdim''"
    and l23: "l23 = ConcatLayer [l21, l22] None"
    and l24: "l24 = ReshapeLayer l23 [- 1, 1028]"
    and l25: "l25 = DropoutLayer l24 0.5"
    and l26: "l26 = DenseLayer l25 1024 None (Some (Orthogonal 1.0)) (Some (Constant 0.1)) (Some ''combine_repr_fc'')"
    and l27: "l27 = FeaturePoolLayer l26 2"
    and l28: "l28 = DropoutLayer l27 0.5"
    and l29: "l29 = DenseLayer l28 (nc * 2) None (Some (Orthogonal 1.0)) (Some (Constant 0.1)) None"
    and l30: "l30 = ReshapeLayer l29 [- 1, nc]"
    and l31: "l31 = NonlinearityLayer l30 softmax"
    by (rule declare_layers_cases)
  show ?thesis
    by (simp add: net od_keys_def layer_keys_def)
qed

lemma layer_neq_incoming: "l' \<in> set (incomings l) \<Longrightarrow> l' \<noteq> l"
  using size_incomings [of l' l] by auto

lemma build_model_None:
  "build_model env w h None nc bs p = bindE (declare_layers w h nc bs p) (\<lambda>net. Inr (net, env))"
  by (simp add: build_model_def)

text \<open>
  C1. Layer \<open>'16'\<close> is given layer \<open>'15'\<close> as its input, not the dropout layer
  \<open>'15d'\<close> declared immediately before it: every declared layer other than
  \<open>'0'\<close>, \<open>'16'\<close>, \<open>'22'\<close> and \<open>'23'\<close> reads the layer declared
  immediately before it, and layer \<open>'16'\<close> does not, so the property fails with
  only \<open>'0'\<close>, \<open>'22'\<close> and \<open>'23'\<close> exempt.
\<close>

theorem build_model_layer_16_reads_15:
  "\<exists>net l15.
      build_model env w h None nc bs p = Inr (net, env)
    \<and> od_getitem net ''15'' = Inr l15
    \<and> od_getitem net ''15d'' = Inr (DropoutLayer l15 p)
    \<and> od_getitem net ''16'' = Inr (conv 256 3 (1, 1) l15)
    \<and> incomings (conv 256 3 (1, 1) l15) = [l15]
    \<and> reads_previous [''0'', ''16'', ''22'', ''23''] net
    \<and> \<not> reads_previous [''0'', ''22'', ''23''] net"
proof -
  obtain l0 l1 l1d l2 l3 l3d l4 l4d l5 l6 l6d l7 l7d l8 l9 l9d l10 l10d l11 l11d l12 l12d l13 l14
    l14d l15 l15d l16 l16d l17 l17d l18 l19 l20 l21 l22 l23 l24 l25 l26 l27 l28 l29 l30 l31
    where net: "declare_layers w h nc bs p =
     Inr [(''0'', l0), (''1'', l1), (''1d'', l1d), (''2'', l2), (''3'', l3), (''3d'', l3d),
         (''4'', l4), (''4d'', l4d), (''5'', l5), (''6'', l6), (''6d'', l6d), (''7'', l7),
         (''7d'', l7d), (''8'', l8), (''9'', l9), (''9d'', l9d), (''10'', l10),
         (''10d'', l10d), (''11'', l11), (''11d'', l11d), (''12'', l12), (''12d'', l12d),
         (''13'', l13), (''14'', l14), (''14d'', l14d), (''15'', l15), (''15d'', l15d),
         (''16'', l16), (''16d'', l16d), (''17'', l17), (''17d'', l17d), (''18'', l18),
         (''19'', l19), (''20'', l20), (''21'', l21), (''22'', l22), (''23'', l23),
         (''24'', l24), (''25'', l25), (''26'', l26), (''27'', l27), (''28'', l28),
         (''29'', l29), (''30'', l30), (''31'', l31)]"
    and l0: "l0 = InputLayer bs [3, w, h] ''images''"
    and l1: "l1 = conv 32 7 (2, 2) l0"
    and l1d: "l1d = DropoutLayer l1 p"
    and l2: "l2 = MaxPool2DLayer l1d 3 (2, 2) None"
    and l3: "l3 = conv 32 3 (1, 1) l2"
    and l3d: "l3d = DropoutLayer l3 p"
    and l4: "l4 = conv 32 3 (1, 1) l3d"
    and l4d: "l4d = DropoutLayer l4 p"
    and l5: "l5 = MaxPool2DLayer l4d 3 (2, 2) None"
    and l6: "l6 = conv 64 3 (1, 1) l5"
    and l6d: "l6d = DropoutLayer l6 p"
    and l7: "l7 = conv 64 3 (1, 1) l6d"
    and l7d: "l7d = DropoutLayer l7 p"
    and l8: "l8 = MaxPool2DLayer l7d 3 (2, 2) None"
    and l9: "l9 = conv 128 3 (1, 1) l8"
    and l9d: "l9d = DropoutLayer l9 p"
    and l10: "l10 = conv 128 3 (1, 1) l9d"
    and l10d: "l10d = DropoutLayer l10 p"
    and l11: "l11 = conv 128 3 (1, 1) l10d"
    and l11d: "l11d = DropoutLayer l11 p"
    and l12: "l12 = conv 128 3 (1, 1) l11d"
    and l12d: "l12d = DropoutLayer l12 p"
    and l13: "l13 = MaxPool2DLayer l12d 3 (2, 2) None"
    and l14: "l14 = conv 256 3 (1, 1) l13"
    and l14d: "l14d = DropoutLayer l14 p"
    and l15: "l15 = conv 256 3 (1, 1) l14d"
    and l15d: "l15d = DropoutLayer l15 p"
    and l16: "l16 = conv 256 3 (1, 1) l15"
    and l16d: "l16d = DropoutLayer l16 p"
    and l17: "l17 = conv 256 3 (1, 1) l16d"
    and l17d: "l17d = DropoutLayer l17 p"
    and l18: "l18 = MaxPool2DLayer l17d 3 (2, 2) (Some ''coarse_last_pool'')"
    and l19: "l19 = DropoutLayer l18 0.5"
    and l20: "l20 = DenseLayer l19 1024 None (Some (Orthogonal 1.0)) (Some (Constant 0.1)) (Some ''first_fc_0'')"
    and l21: "l21 = FeaturePoolLayer l20 2"
    and l22: "l22 = InputLayer bs [2] ''imgdim''"
    and l23: "l23 = ConcatLayer [l21, l22] None"
    and l24: "l24 = ReshapeLayer l23 [- 1, 1028]"
    and l25: "l25 = DropoutLayer l24 0.5"
    and l26: "l26 = DenseLayer l25 1024 None (Some (Orthogonal 1.0)) (Some (Constant 0.1)) (Some ''combine_repr_fc'')"
    and l27: "l27 = FeaturePoolLayer l26 2"
    and l28: "l28 = DropoutLayer l27 0.5"
    and l29: "l29 = DenseLayer l28 (nc * 2) None (Some (Orthogonal 1.0)) (Some (Constant 0.1)) None"
    and l30: "l30 = ReshapeLayer l29 [- 1, nc]"
    and l31: "l31 = NonlinearityLayer l30 softmax"
    by (rule declare_layers_cases)
  have i1: "incomings l1 = [l0]"
    by (simp add: l1 conv_def)
  have i1d: "incomings l1d = [l1]"
    by (simp add: l1d conv_def)
  have i2: "incomings l2 = [l1d]"
    by (simp add: l2 conv_def)
  have i3: "incomings l3 = [l2]"
    by (simp add: l3 conv_def)
  have i3d: "incomings l3d = [l3]"
    by (simp add: l3d conv_def)
  have i4: "incomings l4 = [l3d]"
    by (simp add: l4 conv_def)
  have i4d: "incomings l4d = [l4]"
    by (simp add: l4d conv_def)
  have i5: "incomings l5 = [l4d]"
    by (simp add: l5 conv_def)
  have i6: "incomings l6 = [l5]"
    by (simp add: l6 conv_def)
  have i6d: "incomings l6d = [l6]"
    by (simp add: l6d conv_def)
  have i7: "incomings l7 = [l6d]"
    by (simp add: l7 conv_def)
  have i7d: "incomings l7d = [l7]"
    by (simp add: l7d conv_def)
  have i8: "incomings l8 = [l7d]"
    by (simp add: l8 conv_def)
  have i9: "incomings l9 = [l8]"
    by (simp add: l9 conv_def)
  have i9d: "incomings l9d = [l9]"
    by (simp add: l9d conv_def)
  have i10: "incomings l10 = [l9d]"
    by (simp add: l10 conv_def)
  have i10d: "incomings l10d = [l10]"
    by (simp add: l10d conv_def)
  have i11: "incomings l11 = [l10d]"
    by (simp add: l11 conv_def)
  have i11d: "incomings l11d = [l11]"
    by (simp add: l11d conv_def)
  have i12: "incomings l12 = [l11d]"
    by (simp add: l12 conv_def)
  have i12d: "incomings l12d = [l12]"
    by (simp add: l12d conv_def)
  have i13: "incomings l13 = [l12d]"
    by (simp add: l13 conv_def)
  have i14: "incomings l14 = [l13]"
    by (simp add: l14 conv_def)
  have i14d: "incomings l14d = [l14]"
    by (simp add: l14d conv_def)
  have i15: "incomings l15 = [l14d]"
    by (simp add: l15 conv_def)
  have i15d: "incomings l15d = [l15]"
    by (simp add: l15d conv_def)
  have i16d: "incomings l16d = [l16]"
    by (simp add: l16d conv_def)
  have i17: "incomings l17 = [l16d]"
    by (simp add: l17 conv_def)
  have i17d: "incomings l17d = [l17]"
    by (simp add: l17d conv_def)
  have i18: "incomings l18 = [l17d]"
    by (simp add: l18 conv_def)
  have i19: "incomings l19 = [l18]"
    by (simp add: l19 conv_def)
  have i20: "incomings l20 = [l19]"
    by (simp add: l20 conv_def)
  have i21: "incomings l21 = [l20]"
    by (simp add: l21 conv_def)
  have i24: "incomings l24 = [l23]"
    by (simp add: l24 conv_def)
  have i25: "incomings l25 = [l24]"
    by (simp add: l25 conv_def)
  have i26: "incomings l26 = [l25]"
    by (simp add: l26 conv_def)
  have i27: "incomings l27 = [l26]"
    by (simp add: l27 conv_def)
  have i28: "incomings l28 = [l27]"
    by (simp add: l28 conv_def)
  have i29: "incomings l29 = [l28]"
    by (simp add: l29 conv_def)
  have i30: "incomings l30 = [l29]"
    by (simp add: l30 conv_def)
  have i31: "incomings l31 = [l30]"
    by (simp add: l31 conv_def)
  have i16: "incomings l16 = [l15]"
    by (simp add: l16 conv_def)
  have "l15 \<in> set (incomings l15d)"
    by (simp add: l15d)
  then have "l15 \<noteq> l15d"
    by (rule layer_neq_incoming)
  with i16 have n16: "incomings l16 \<noteq> [l15d]"
    by simp
  have seq: "reads_previous [''0'', ''16'', ''22'', ''23''] (map2 Pair layer_keys
      [l0, l1, l1d, l2, l3, l3d, l4, l4d, l5, l6, l6d, l7, l7d, l8, l9, l9d, l10, l10d, l11,
       l11d, l12, l12d, l13, l14, l14d, l15, l15d, l16, l16d, l17, l17d, l18, l19, l20, l21,
       l22, l23, l24, l25, l26, l27, l28, l29, l30, l31])"
    by (simp add: reads_previous_def layer_keys_def
        i1 i1d i2 i3 i3d i4 i4d i5 i6 i6d i7 i7d i8 i9 i9d i10 i10d i11 i11d i12 i12d i13
        i14 i14d i15 i15d i16d i17 i17d i18 i19 i20 i21 i24 i25 i26 i27 i28 i29 i30 i31)
  have nseq: "\<not> reads_previous [''0'', ''22'', ''23''] (map2 Pair layer_keys
      [l0, l1, l1d, l2, l3, l3d, l4, l4d, l5, l6, l6d, l7, l7d, l8, l9, l9d, l10, l10d, l11,
       l11d, l12, l12d, l13, l14, l14d, l15, l15d, l16, l16d, l17, l17d, l18, l19, l20, l21,
       l22, l23, l24, l25, l26, l27, l28, l29, l30, l31])"
    by (simp add: reads_previous_def layer_keys_def n16)
  show ?thesis
    using seq nseq i16
    by (simp add: build_model_None net od_getitem_def layer_keys_def l15d [symmetric] l16 [symmetric])
qed



subsection \<open>Dict operations and the removal loop\<close>

lemma od_setitem_new: "k \<notin> set (od_keys d) \<Longrightarrow> od_setitem d k v = d @ [(k, v)]"
  by (induction d) (auto simp: od_keys_def)

lemma od_keys_append: "od_keys (d @ e) = od_keys d @ od_keys e"
  by (simp add: od_keys_def)

lemma od_getitem_new:
  "k \<notin> set (od_keys d) \<Longrightarrow> od_getitem (d @ (k, v) # e) k = Inr v"
  by (induction d) (auto simp: od_keys_def od_getitem_def)

lemma od_getitem_snoc:
  "k \<notin> set (od_keys d) \<Longrightarrow> od_getitem (d @ [(k, v)]) k = Inr v"
  by (rule od_getitem_new)

lemma od_getitem_head: "od_getitem ((k, v) # d) k = Inr v"
  by (simp add: od_getitem_def)

declare remove_layers_after.simps [simp del]

lemma remove_layers_after_missing:
  "k \<notin> set (od_keys d) \<Longrightarrow> remove_layers_after d k = Inl IndexError"
proof (induction d rule: rev_induct)
  case Nil
  show ?case
    by (subst remove_layers_after.simps) (simp add: last_item_def od_keys_def)
next
  case (snoc x xs)
  then have "remove_layers_after xs k = Inl IndexError" and "fst x \<noteq> k"
    by (auto simp: od_keys_def)
  then show ?case
    by (subst remove_layers_after.simps) (simp add: last_item_def od_keys_def od_popitem_def)
qed

lemma remove_layers_after_found:
  "k \<in> set (od_keys d) \<Longrightarrow>
   \<exists>kept dropped v. d = kept @ (k, v) # dropped \<and> k \<notin> set (od_keys dropped)
      \<and> remove_layers_after d k = Inr (kept @ [(k, v)])"
proof (induction d rule: rev_induct)
  case Nil
  then show ?case by (simp add: od_keys_def)
next
  case (snoc x xs)
  show ?case
  proof (cases "fst x = k")
    case True
    then have "remove_layers_after (xs @ [x]) k = Inr (xs @ [x])"
      by (subst remove_layers_after.simps) (simp add: last_item_def od_keys_def)
    moreover from True have "xs @ [x] = xs @ (k, snd x) # []"
      by (cases x) simp
    ultimately show ?thesis
      by (metis append_Nil2 empty_iff list.set(1) list.simps(8) od_keys_def)
  next
    case False
    with snoc.prems have "k \<in> set (od_keys xs)"
      by (auto simp: od_keys_def)
    then obtain kept dropped v where xs: "xs = kept @ (k, v) # dropped"
      and nd: "k \<notin> set (od_keys dropped)"
      and r: "remove_layers_after xs k = Inr (kept @ [(k, v)])"
      using snoc.IH by blast
    from False r have "remove_layers_after (xs @ [x]) k = Inr (kept @ [(k, v)])"
      by (subst remove_layers_after.simps) (simp add: last_item_def od_keys_def od_popitem_def)
    moreover from xs have "xs @ [x] = kept @ (k, v) # (dropped @ [x])"
      by simp
    moreover from nd False have "k \<notin> set (od_keys (dropped @ [x]))"
      by (auto simp: od_keys_def)
    ultimately show ?thesis
      by blast
  qed
qed

lemma remove_layers_after_iff:
  "(\<exists>kept. remove_layers_after d k = Inr kept) \<longleftrightarrow> k \<in> set (od_keys d)"
  using remove_layers_after_found [of k d] remove_layers_after_missing [of k d]
  by (cases "k \<in> set (od_keys d)") auto

lemma build_model_network:
  "build_model env w h fn nc bs p = Inr (network, env') \<Longrightarrow>
   declare_layers w h nc bs p = Inr network"
  by (auto simp: build_model_def bindE_eq_Inr split: option.splits)

lemma build_model_network_keys:
  "build_model env w h fn nc bs p = Inr (network, env') \<Longrightarrow> od_keys network = layer_keys"
  using build_model_network declare_layers_keys by (metis Inr_inject)

subsection \<open>Layers and parameters below a layer\<close>

declare visit.simps [simp del]

lemma fold_invariant:
  assumes "\<And>x acc. x \<in> set ls \<Longrightarrow> P acc \<Longrightarrow> P (f x acc)" and "P acc"
  shows "P (fold f ls acc)"
  using assms by (induction ls arbitrary: acc) simp_all

lemma visit_size:
  "x \<in> set (visit l result) \<Longrightarrow> x \<in> set result \<or> size x \<le> size l"
proof (induction l result arbitrary: x rule: visit.induct)
  case (1 l result)
  show ?case
  proof (cases "l \<in> set result")
    case True
    with "1.prems" show ?thesis
      by (simp add: visit.simps)
  next
    case False
    have "\<forall>y\<in>set (fold (\<lambda>x acc. visit x acc) (incomings l) result).
            y \<in> set result \<or> size y < size l"
    proof (rule fold_invariant)
      fix z acc
      assume z: "z \<in> set (incomings l)"
        and acc: "\<forall>y\<in>set acc. y \<in> set result \<or> size y < size l"
      show "\<forall>y\<in>set (visit z acc). y \<in> set result \<or> size y < size l"
      proof
        fix y
        assume "y \<in> set (visit z acc)"
        then have "y \<in> set acc \<or> size y \<le> size z"
          using "1.IH" [OF False z] by blast
        with acc size_incomings [OF z] show "y \<in> set result \<or> size y < size l"
          by auto
      qed
    qed simp
    with False "1.prems" show ?thesis
      by (auto simp: visit.simps [of l result])
  qed
qed

lemma visit_self: "l \<in> set (visit l result)"
  by (simp add: visit.simps [of l result])

lemma visit_distinct: "distinct result \<Longrightarrow> distinct (visit l result)"
proof (induction l result rule: visit.induct)
  case (1 l result)
  show ?case
  proof (cases "l \<in> set result")
    case True
    with "1.prems" show ?thesis
      by (simp add: visit.simps)
  next
    case False
    let ?r = "fold (\<lambda>x acc. visit x acc) (incomings l) result"
    have "distinct ?r \<and> (\<forall>y\<in>set ?r. y \<in> set result \<or> size y < size l)"
    proof (rule fold_invariant)
      fix z acc
      assume z: "z \<in> set (incomings l)"
        and acc: "distinct acc \<and> (\<forall>y\<in>set acc. y \<in> set result \<or> size y < size l)"
      have "\<forall>y\<in>set (visit z acc). y \<in> set result \<or> size y < size l"
      proof
        fix y
        assume "y \<in> set (visit z acc)"
        then have "y \<in> set acc \<or> size y \<le> size z"
          by (rule visit_size)
        with acc size_incomings [OF z] show "y \<in> set result \<or> size y < size l"
          by auto
      qed
      moreover have "distinct (visit z acc)"
        using "1.IH" [OF False z] acc by blast
      ultimately show "distinct (visit z acc)
          \<and> (\<forall>y\<in>set (visit z acc). y \<in> set result \<or> size y < size l)"
        by blast
    qed (simp add: "1.prems")
    with False show ?thesis
      by (auto simp: visit.simps [of l result])
  qed
qed

lemma get_all_layers_distinct: "distinct (get_all_layers ls)"
  unfolding get_all_layers_def
  by (rule fold_invariant) (simp_all add: visit_distinct)

lemma get_all_layers_single:
  "get_all_layers [l] = get_all_layers (incomings l) @ [l]"
  by (simp add: get_all_layers_def visit.simps [of l "[]"])

lemma get_all_layers_chain:
  "incomings l = [l'] \<Longrightarrow> get_all_layers [l] = get_all_layers [l'] @ [l]"
  by (simp add: get_all_layers_single)

lemma get_all_layers_input:
  "incomings l = [] \<Longrightarrow> get_all_layers [l] = [l]"
  by (simp add: get_all_layers_def visit.simps [of l "[]"])

lemma get_all_layers_size:
  "x \<in> set (get_all_layers [l]) \<Longrightarrow> size x \<le> size l"
  using visit_size [of x l "[]"] by (simp add: get_all_layers_def)

lemma get_all_layers_pair_input:
  "incomings b = [] \<Longrightarrow> b \<notin> set (get_all_layers [a]) \<Longrightarrow>
   get_all_layers [a, b] = get_all_layers [a] @ [b]"
  by (simp add: get_all_layers_def visit.simps [of b])

text \<open>The layers below the head that BCNN puts on a layer.\<close>

lemma get_all_layers_head:
  assumes "mean = GlobalPoolLayer l T_mean" and "mx = GlobalPoolLayer l T_max"
    and "gp = ConcatLayer [mean, mx] ax"
    and "si = DenseLayer gp nu nl W b name" and "lr = NonlinearityLayer si nl'"
  shows "get_all_layers [lr] = get_all_layers [l] @ [mean, mx, gp, si, lr]"
proof -
  let ?below = "get_all_layers [l]"
  have mean: "get_all_layers [mean] = ?below @ [mean]"
    by (rule get_all_layers_chain) (simp add: assms)
  have "mx \<notin> set ?below"
    using get_all_layers_size [of mx l] by (auto simp: assms)
  moreover have "mx \<noteq> mean"
    by (simp add: assms)
  moreover have "l \<in> set ?below"
    by (simp add: get_all_layers_def visit_self)
  moreover have "incomings mx = [l]"
    by (simp add: assms)
  ultimately have "visit mx (?below @ [mean]) = ?below @ [mean, mx]"
    by (simp add: visit.simps [of mx "?below @ [mean]"] visit.simps [of l "?below @ [mean]"])
  with mean have "get_all_layers [mean, mx] = ?below @ [mean, mx]"
    by (simp add: get_all_layers_def)
  moreover have "incomings gp = [mean, mx]"
    by (simp add: assms)
  ultimately have "get_all_layers [gp] = ?below @ [mean, mx, gp]"
    by (simp add: get_all_layers_single [of gp])
  moreover have "incomings si = [gp]"
    by (simp add: assms)
  ultimately have "get_all_layers [si] = ?below @ [mean, mx, gp, si]"
    by (simp add: get_all_layers_chain [of si gp])
  moreover have "incomings lr = [si]"
    by (simp add: assms)
  ultimately show ?thesis
    by (simp add: get_all_layers_chain [of lr si])
qed

lemma unique_distinct: "distinct xs \<Longrightarrow> unique xs = xs"
proof (induction xs)
  case (Cons x xs)
  then have "filter (\<lambda>y. y \<noteq> x) xs = xs"
    by (auto intro: filter_True)
  with Cons show ?case by simp
qed simp

lemma unique_is_distinct: "distinct (unique xs)"
proof (induction xs rule: unique.induct)
  case (2 x xs)
  have "set (unique ys) \<subseteq> set ys" for ys :: "'a list"
    by (induction ys rule: unique.induct) auto
  then have "x \<notin> set (unique (filter (\<lambda>y. y \<noteq> x) xs))"
    by fastforce
  with 2 show ?case by simp
qed simp

lemma get_all_params_distinct: "distinct (get_all_params ls)"
  by (simp add: get_all_params_def unique_is_distinct)

lemma distinct_layer_params:
  "distinct ls \<Longrightarrow> distinct (concat (map (\<lambda>l. map (\<lambda>name. (l, name)) (get_params l)) ls))"
proof (induction ls)
  case (Cons l ls)
  have "distinct (get_params l)"
    by (cases l) simp_all
  then have "distinct (map (\<lambda>name. (l, name)) (get_params l))"
    by (simp add: distinct_map inj_on_def)
  with Cons show ?case
    by auto
qed simp

lemma get_all_params_concat:
  "get_all_params ls =
     concat (map (\<lambda>l. map (\<lambda>name. (l, name)) (get_params l)) (get_all_layers ls))"
  by (simp add: get_all_params_def unique_distinct distinct_layer_params
      get_all_layers_distinct)

lemma length_get_all_params:
  "length (get_all_params ls) = sum_list (map (\<lambda>l. length (get_params l)) (get_all_layers ls))"
  by (simp add: get_all_params_concat length_concat comp_def)

subsection \<open>The parameters of the declared network\<close>

lemma declare_layers_first:
  "declare_layers w h nc bs p = Inr net \<Longrightarrow>
   \<exists>rest. net = (''0'', InputLayer bs [3, w, h] ''images'') # rest"
proof -
  assume r: "declare_layers w h nc bs p = Inr net"
  obtain l0 l1 l1d l2 l3 l3d l4 l4d l5 l6 l6d l7 l7d l8 l9 l9d l10 l10d l11 l11d l12 l12d l13 l14
    l14d l15 l15d l16 l16d l17 l17d l18 l19 l20 l21 l22 l23 l24 l25 l26 l27 l28 l29 l30 l31
    where net: "declare_layers w h nc bs p =
     Inr [(''0'', l0), (''1'', l1), (''1d'', l1d), (''2'', l2), (''3'', l3), (''3d'', l3d),
         (''4'', l4), (''4d'', l4d), (''5'', l5), (''6'', l6), (''6d'', l6d), (''7'', l7),
         (''7d'', l7d), (''8'', l8), (''9'', l9), (''9d'', l9d), (''10'', l10),
         (''10d'', l10d), (''11'', l11), (''11d'', l11d), (''12'', l12), (''12d'', l12d),
         (''13'', l13), (''14'', l14), (''14d'', l14d), (''15'', l15), (''15d'', l15d),
         (''16'', l16), (''16d'', l16d), (''17'', l17), (''17d'', l17d), (''18'', l18),
         (''19'', l19), (''20'', l20), (''21'', l21), (''22'', l22), (''23'', l23),
         (''24'', l24), (''25'', l25), (''26'', l26), (''27'', l27), (''28'', l28),
         (''29'', l29), (''30'', l30), (''31'', l31)]"
    and l0: "l0 = InputLayer bs [3, w, h] ''images''"
    and l1: "l1 = conv 32 7 (2, 2) l0"
    and l1d: "l1d = DropoutLayer l1 p"
    and l2: "l2 = MaxPool2DLayer l1d 3 (2, 2) None"
    and l3: "l3 = conv 32 3 (1, 1) l2"
    and l3d: "l3d = DropoutLayer l3 p"
    and l4: "l4 = conv 32 3 (1, 1) l3d"
    and l4d: "l4d = DropoutLayer l4 p"
    and l5: "l5 = MaxPool2DLayer l4d 3 (2, 2) None"
    and l6: "l6 = conv 64 3 (1, 1) l5"
    and l6d: "l6d = DropoutLayer l6 p"
    and l7: "l7 = conv 64 3 (1, 1) l6d"
    and l7d: "l7d = DropoutLayer l7 p"
    and l8: "l8 = MaxPool2DLayer l7d 3 (2, 2) None"
    and l9: "l9 = conv 128 3 (1, 1) l8"
    and l9d: "l9d = DropoutLayer l9 p"
    and l10: "l10 = conv 128 3 (1, 1) l9d"
    and l10d: "l10d = DropoutLayer l10 p"
    and l11: "l11 = conv 128 3 (1, 1) l10d"
    and l11d: "l11d = DropoutLayer l11 p"
    and l12: "l12 = conv 128 3 (1, 1) l11d"
    and l12d: "l12d = DropoutLayer l12 p"
    and l13: "l13 = MaxPool2DLayer l12d 3 (2, 2) None"
    and l14: "l14 = conv 256 3 (1, 1) l13"
    and l14d: "l14d = DropoutLayer l14 p"
    and l15: "l15 = conv 256 3 (1, 1) l14d"
    and l15d: "l15d = DropoutLayer l15 p"
    and l16: "l16 = conv 256 3 (1, 1) l15"
    and l16d: "l16d = DropoutLayer l16 p"
    and l17: "l17 = conv 256 3 (1, 1) l16d"
    and l17d: "l17d = DropoutLayer l17 p"
    and l18: "l18 = MaxPool2DLayer l17d 3 (2, 2) (Some ''coarse_last_pool'')"
    and l19: "l19 = DropoutLayer l18 0.5"
    and l20: "l20 = DenseLayer l19 1024 None (Some (Orthogonal 1.0)) (Some (Constant 0.1)) (Some ''first_fc_0'')"
    and l21: "l21 = FeaturePoolLayer l20 2"
    and l22: "l22 = InputLayer bs [2] ''imgdim''"
    and l23: "l23 = ConcatLayer [l21, l22] None"
    and l24: "l24 = ReshapeLayer l23 [- 1, 1028]"
    and l25: "l25 = DropoutLayer l24 0.5"
    and l26: "l26 = DenseLayer l25 1024 None (Some (Orthogonal 1.0)) (Some (Constant 0.1)) (Some ''combine_repr_fc'')"
    and l27: "l27 = FeaturePoolLayer l26 2"
    and l28: "l28 = DropoutLayer l27 0.5"
    and l29: "l29 = DenseLayer l28 (nc * 2) None (Some (Orthogonal 1.0)) (Some (Constant 0.1)) None"
    and l30: "l30 = ReshapeLayer l29 [- 1, nc]"
    and l31: "l31 = NonlinearityLayer l30 softmax"
    by (rule declare_layers_cases)
  from r net l0 show ?thesis
    by auto
qed

text \<open>
  The layers below layer \<open>'17'\<close> and below layer \<open>'31'\<close> in the order in which
  \<open>get_all_layers\<close> lists them, and the number of their parameters. The dropout
  layer \<open>'15d'\<close> is below neither.
\<close>

lemma declare_layers_params:
  assumes "declare_layers w h nc bs p = Inr net"
  shows "\<exists>l17 l31. od_getitem net ''17'' = Inr l17 \<and> od_getitem net ''31'' = Inr l31
    \<and> length (get_all_params [l17]) = 26 \<and> length (get_all_params [l31]) = 32"
proof -
  obtain l0 l1 l1d l2 l3 l3d l4 l4d l5 l6 l6d l7 l7d l8 l9 l9d l10 l10d l11 l11d l12 l12d l13 l14
    l14d l15 l15d l16 l16d l17 l17d l18 l19 l20 l21 l22 l23 l24 l25 l26 l27 l28 l29 l30 l31
    where net: "declare_layers w h nc bs p =
     Inr [(''0'', l0), (''1'', l1), (''1d'', l1d), (''2'', l2), (''3'', l3), (''3d'', l3d),
         (''4'', l4), (''4d'', l4d), (''5'', l5), (''6'', l6), (''6d'', l6d), (''7'', l7),
         (''7d'', l7d), (''8'', l8), (''9'', l9), (''9d'', l9d), (''10'', l10),
         (''10d'', l10d), (''11'', l11), (''11d'', l11d), (''12'', l12), (''12d'', l12d),
         (''13'', l13), (''14'', l14), (''14d'', l14d), (''15'', l15), (''15d'', l15d),
         (''16'', l16), (''16d'', l16d), (''17'', l17), (''17d'', l17d), (''18'', l18),
         (''19'', l19), (''20'', l20), (''21'', l21), (''22'', l22), (''23'', l23),
         (''24'', l24), (''25'', l25), (''26'', l26), (''27'', l27), (''28'', l28),
         (''29'', l29), (''30'', l30), (''31'', l31)]"
    and l0: "l0 = InputLayer bs [3, w, h] ''images''"
    and l1: "l1 = conv 32 7 (2, 2) l0"
    and l1d: "l1d = DropoutLayer l1 p"
    and l2: "l2 = MaxPool2DLayer l1d 3 (2, 2) None"
    and l3: "l3 = conv 32 3 (1, 1) l2"
    and l3d: "l3d = DropoutLayer l3 p"
    and l4: "l4 = conv 32 3 (1, 1) l3d"
    and l4d: "l4d = DropoutLayer l4 p"
    and l5: "l5 = MaxPool2DLayer l4d 3 (2, 2) None"
    and l6: "l6 = conv 64 3 (1, 1) l5"
    and l6d: "l6d = DropoutLayer l6 p"
    and l7: "l7 = conv 64 3 (1, 1) l6d"
    and l7d: "l7d = DropoutLayer l7 p"
    and l8: "l8 = MaxPool2DLayer l7d 3 (2, 2) None"
    and l9: "l9 = conv 128 3 (1, 1) l8"
    and l9d: "l9d = DropoutLayer l9 p"
    and l10: "l10 = conv 128 3 (1, 1) l9d"
    and l10d: "l10d = DropoutLayer l10 p"
    and l11: "l11 = conv 128 3 (1, 1) l10d"
    and l11d: "l11d = DropoutLayer l11 p"
    and l12: "l12 = conv 128 3 (1, 1) l11d"
    and l12d: "l12d = DropoutLayer l12 p"
    and l13: "l13 = MaxPool2DLayer l12d 3 (2, 2) None"
    and l14: "l14 = conv 256 3 (1, 1) l13"
    and l14d: "l14d = DropoutLayer l14 p"
    and l15: "l15 = conv 256 3 (1, 1) l14d"
    and l15d: "l15d = DropoutLayer l15 p"
    and l16: "l16 = conv 256 3 (1, 1) l15"
    and l16d: "l16d = DropoutLayer l16 p"
    and l17: "l17 = conv 256 3 (1, 1) l16d"
    and l17d: "l17d = DropoutLayer l17 p"
    and l18: "l18 = MaxPool2DLayer l17d 3 (2, 2) (Some ''coarse_last_pool'')"
    and l19: "l19 = DropoutLayer l18 0.5"
    and l20: "l20 = DenseLayer l19 1024 None (Some (Orthogonal 1.0)) (Some (Constant 0.1)) (Some ''first_fc_0'')"
    and l21: "l21 = FeaturePoolLayer l20 2"
    and l22: "l22 = InputLayer bs [2] ''imgdim''"
    and l23: "l23 = ConcatLayer [l21, l22] None"
    and l24: "l24 = ReshapeLayer l23 [- 1, 1028]"
    and l25: "l25 = DropoutLayer l24 0.5"
    and l26: "l26 = DenseLayer l25 1024 None (Some (Orthogonal 1.0)) (Some (Constant 0.1)) (Some ''combine_repr_fc'')"
    and l27: "l27 = FeaturePoolLayer l26 2"
    and l28: "l28 = DropoutLayer l27 0.5"
    and l29: "l29 = DenseLayer l28 (nc * 2) None (Some (Orthogonal 1.0)) (Some (Constant 0.1)) None"
    and l30: "l30 = ReshapeLayer l29 [- 1, nc]"
    and l31: "l31 = NonlinearityLayer l30 softmax"
    by (rule declare_layers_cases)
  have g0: "get_all_layers [l0] = [l0]"
    by (rule get_all_layers_input) (simp add: l0)
  have i1: "incomings l1 = [l0]"
    by (simp add: l1 conv_def)
  have g1: "get_all_layers [l1] =
      [l0, l1]"
    by (simp add: get_all_layers_chain [OF i1] g0)
  have i1d: "incomings l1d = [l1]"
    by (simp add: l1d conv_def)
  have g1d: "get_all_layers [l1d] =
      [l0, l1, l1d]"
    by (simp add: get_all_layers_chain [OF i1d] g1)
  have i2: "incomings l2 = [l1d]"
    by (simp add: l2 conv_def)
  have g2: "get_all_layers [l2] =
      [l0, l1, l1d, l2]"
    by (simp add: get_all_layers_chain [OF i2] g1d)
  have i3: "incomings l3 = [l2]"
    by (simp add: l3 conv_def)
  have g3: "get_all_layers [l3] =
      [l0, l1, l1d, l2, l3]"
    by (simp add: get_all_layers_chain [OF i3] g2)
  have i3d: "incomings l3d = [l3]"
    by (simp add: l3d conv_def)
  have g3d: "get_all_layers [l3d] =
      [l0, l1, l1d, l2, l3, l3d]"
    by (simp add: get_all_layers_chain [OF i3d] g3)
  have i4: "incomings l4 = [l3d]"
    by (simp add: l4 conv_def)
  have g4: "get_all_layers [l4] =
      [l0, l1, l1d, l2, l3, l3d, l4]"
    by (simp add: get_all_layers_chain [OF i4] g3d)
  have i4d: "incomings l4d = [l4]"
    by (simp add: l4d conv_def)
  have g4d: "get_all_layers [l4d] =
      [l0, l1, l1d, l2, l3, l3d, l4, l4d]"
    by (simp add: get_all_layers_chain [OF i4d] g4)
  have i5: "incomings l5 = [l4d]"
    by (simp add: l5 conv_def)
  have g5: "get_all_layers [l5] =
      [l0, l1, l1d, l2, l3, l3d, l4, l4d, l5]"
    by (simp add: get_all_layers_chain [OF i5] g4d)
  have i6: "incomings l6 = [l5]"
    by (simp add: l6 conv_def)
  have g6: "get_all_layers [l6] =
      [l0, l1, l1d, l2, l3, l3d, l4, l4d, l5, l6]"
    by (simp add: get_all_layers_chain [OF i6] g5)
  have i6d: "incomings l6d = [l6]"
    by (simp add: l6d conv_def)
  have g6d: "get_all_layers [l6d] =
      [l0, l1, l1d, l2, l3, l3d, l4, l4d, l5, l6, l6d]"
    by (simp add: get_all_layers_chain [OF i6d] g6)
  have i7: "incomings l7 = [l6d]"
    by (simp add: l7 conv_def)
  have g7: "get_all_layers [l7] =
      [l0, l1, l1d, l2, l3, l3d, l4, l4d, l5, l6, l6d, l7]"
    by (simp add: get_all_layers_chain [OF i7] g6d)
  have i7d: "incomings l7d = [l7]"
    by (simp add: l7d conv_def)
  have g7d: "get_all_layers [l7d] =
      [l0, l1, l1d, l2, l3, l3d, l4, l4d, l5, l6, l6d, l7, l7d]"
    by (simp add: get_all_layers_chain [OF i7d] g7)
  have i8: "incomings l8 = [l7d]"
    by (simp add: l8 conv_def)
  have g8: "get_all_layers [l8] =
      [l0, l1, l1d, l2, l3, l3d, l4, l4d, l5, l6, l6d, l7, l7d, l8]"
    by (simp add: get_all_layers_chain [OF i8] g7d)
  have i9: "incomings l9 = [l8]"
    by (simp add: l9 conv_def)
  have g9: "get_all_layers [l9] =
      [l0, l1, l1d, l2, l3, l3d, l4, l4d, l5, l6, l6d, l7, l7d, l8, l9]"
    by (simp add: get_all_layers_chain [OF i9] g8)
  have i9d: "incomings l9d = [l9]"
    by (simp add: l9d conv_def)
  have g9d: "get_all_layers [l9d] =
      [l0, l1, l1d, l2, l3, l3d, l4, l4d, l5, l6, l6d, l7, l7d, l8, l9, l9d]"
    by (simp add: get_all_layers_chain [OF i9d] g9)
  have i10: "incomings l10 = [l9d]"
    by (simp add: l10 conv_def)
  have g10: "get_all_layers [l10] =
      [l0, l1, l1d, l2, l3, l3d, l4, l4d, l5, l6, l6d, l7, l7d, l8, l9, l9d, l10]"
    by (simp add: get_all_layers_chain [OF i10] g9d)
  have i10d: "incomings l10d = [l10]"
    by (simp add: l10d conv_def)
  have g10d: "get_all_layers [l10d] =
      [l0, l1, l1d, l2, l3, l3d, l4, l4d, l5, l6, l6d, l7, l7d, l8, l9, l9d, l10, l10d]"
    by (simp add: get_all_layers_chain [OF i10d] g10)
  have i11: "incomings l11 = [l10d]"
    by (simp add: l11 conv_def)
  have g11: "get_all_layers [l11] =
      [l0, l1, l1d, l2, l3, l3d, l4, l4d, l5, l6, l6d, l7, l7d, l8, l9, l9d, l10, l10d, l11]"
    by (simp add: get_all_layers_chain [OF i11] g10d)
  have i11d: "incomings l11d = [l11]"
    by (simp add: l11d conv_def)
  have g11d: "get_all_layers [l11d] =
      [l0, l1, l1d, l2, l3, l3d, l4, l4d, l5, l6, l6d, l7, l7d, l8, l9, l9d, l10, l10d, l11,
       l11d]"
    by (simp add: get_all_layers_chain [OF i11d] g11)
  have i12: "incomings l12 = [l11d]"
    by (simp add: l12 conv_def)
  have g12: "get_all_layers [l12] =
      [l0, l1, l1d, l2, l3, l3d, l4, l4d, l5, l6, l6d, l7, l7d, l8, l9, l9d, l10, l10d, l11,
       l11d, l12]"
    by (simp add: get_all_layers_chain [OF i12] g11d)
  have i12d: "incomings l12d = [l12]"
    by (simp add: l12d conv_def)
  have g12d: "get_all_layers [l12d] =
      [l0, l1, l1d, l2, l3, l3d, l4, l4d, l5, l6, l6d, l7, l7d, l8, l9, l9d, l10, l10d, l11,
       l11d, l12, l12d]"
    by (simp add: get_all_layers_chain [OF i12d] g12)
  have i13: "incomings l13 = [l12d]"
    by (simp add: l13 conv_def)
  have g13: "get_all_layers [l13] =
      [l0, l1, l1d, l2, l3, l3d, l4, l4d, l5, l6, l6d, l7, l7d, l8, l9, l9d, l10, l10d, l11,
       l11d, l12, l12d, l13]"
    by (simp add: get_all_layers_chain [OF i13] g12d)
  have i14: "incomings l14 = [l13]"
    by (simp add: l14 conv_def)
  have g14: "get_all_layers [l14] =
      [l0, l1, l1d, l2, l3, l3d, l4, l4d, l5, l6, l6d, l7, l7d, l8, l9, l9d, l10, l10d, l11,
       l11d, l12, l12d, l13, l14]"
    by (simp add: get_all_layers_chain [OF i14] g13)
  have i14d: "incomings l14d = [l14]"
    by (simp add: l14d conv_def)
  have g14d: "get_all_layers [l14d] =
      [l0, l1, l1d, l2, l3, l3d, l4, l4d, l5, l6, l6d, l7, l7d, l8, l9, l9d, l10, l10d, l11,
       l11d, l12, l12d, l13, l14, l14d]"
    by (simp add: get_all_layers_chain [OF i14d] g14)
  have i15: "incomings l15 = [l14d]"
    by (simp add: l15 conv_def)
  have g15: "get_all_layers [l15] =
      [l0, l1, l1d, l2, l3, l3d, l4, l4d, l5, l6, l6d, l7, l7d, l8, l9, l9d, l10, l10d, l11,
       l11d, l12, l12d, l13, l14, l14d, l15]"
    by (simp add: get_all_layers_chain [OF i15] g14d)
  have i15d: "incomings l15d = [l15]"
    by (simp add: l15d conv_def)
  have g15d: "get_all_layers [l15d] =
      [l0, l1, l1d, l2, l3, l3d, l4, l4d, l5, l6, l6d, l7, l7d, l8, l9, l9d, l10, l10d, l11,
       l11d, l12, l12d, l13, l14, l14d, l15, l15d]"
    by (simp add: get_all_layers_chain [OF i15d] g15)
  have i16: "incomings l16 = [l15]"
    by (simp add: l16 conv_def)
  have g16: "get_all_layers [l16] =
      [l0, l1, l1d, l2, l3, l3d, l4, l4d, l5, l6, l6d, l7, l7d, l8, l9, l9d, l10, l10d, l11,
       l11d, l12, l12d, l13, l14, l14d, l15, l16]"
    by (simp add: get_all_layers_chain [OF i16] g15)
  have i16d: "incomings l16d = [l16]"
    by (simp add: l16d conv_def)
  have g16d: "get_all_layers [l16d] =
      [l0, l1, l1d, l2, l3, l3d, l4, l4d, l5, l6, l6d, l7, l7d, l8, l9, l9d, l10, l10d, l11,
       l11d, l12, l12d, l13, l14, l14d, l15, l16, l16d]"
    by (simp add: get_all_layers_chain [OF i16d] g16)
  have i17: "incomings l17 = [l16d]"
    by (simp add: l17 conv_def)
  have g17: "get_all_layers [l17] =
      [l0, l1, l1d, l2, l3, l3d, l4, l4d, l5, l6, l6d, l7, l7d, l8, l9, l9d, l10, l10d, l11,
       l11d, l12, l12d, l13, l14, l14d, l15, l16, l16d, l17]"
    by (simp add: get_all_layers_chain [OF i17] g16d)
  have i17d: "incomings l17d = [l17]"
    by (simp add: l17d conv_def)
  have g17d: "get_all_layers [l17d] =
      [l0, l1, l1d, l2, l3, l3d, l4, l4d, l5, l6, l6d, l7, l7d, l8, l9, l9d, l10, l10d, l11,
       l11d, l12, l12d, l13, l14, l14d, l15, l16, l16d, l17, l17d]"
    by (simp add: get_all_layers_chain [OF i17d] g17)
  have i18: "incomings l18 = [l17d]"
    by (simp add: l18 conv_def)
  have g18: "get_all_layers [l18] =
      [l0, l1, l1d, l2, l3, l3d, l4, l4d, l5, l6, l6d, l7, l7d, l8, l9, l9d, l10, l10d, l11,
       l11d, l12, l12d, l13, l14, l14d, l15, l16, l16d, l17, l17d, l18]"
    by (simp add: get_all_layers_chain [OF i18] g17d)
  have i19: "incomings l19 = [l18]"
    by (simp add: l19 conv_def)
  have g19: "get_all_layers [l19] =
      [l0, l1, l1d, l2, l3, l3d, l4, l4d, l5, l6, l6d, l7, l7d, l8, l9, l9d, l10, l10d, l11,
       l11d, l12, l12d, l13, l14, l14d, l15, l16, l16d, l17, l17d, l18, l19]"
    by (simp add: get_all_layers_chain [OF i19] g18)
  have i20: "incomings l20 = [l19]"
    by (simp add: l20 conv_def)
  have g20: "get_all_layers [l20] =
      [l0, l1, l1d, l2, l3, l3d, l4, l4d, l5, l6, l6d, l7, l7d, l8, l9, l9d, l10, l10d, l11,
       l11d, l12, l12d, l13, l14, l14d, l15, l16, l16d, l17, l17d, l18, l19, l20]"
    by (simp add: get_all_layers_chain [OF i20] g19)
  have i21: "incomings l21 = [l20]"
    by (simp add: l21 conv_def)
  have g21: "get_all_layers [l21] =
      [l0, l1, l1d, l2, l3, l3d, l4, l4d, l5, l6, l6d, l7, l7d, l8, l9, l9d, l10, l10d, l11,
       l11d, l12, l12d, l13, l14, l14d, l15, l16, l16d, l17, l17d, l18, l19, l20, l21]"
    by (simp add: get_all_layers_chain [OF i21] g20)
  have g22: "get_all_layers [l22] = [l22]"
    by (rule get_all_layers_input) (simp add: l22)
  have n0: "l22 \<noteq> l0"
    by (simp add: l22 l0 conv_def)
  have n1: "l22 \<noteq> l1"
    by (simp add: l22 l1 conv_def)
  have n1d: "l22 \<noteq> l1d"
    by (simp add: l22 l1d conv_def)
  have n2: "l22 \<noteq> l2"
    by (simp add: l22 l2 conv_def)
  have n3: "l22 \<noteq> l3"
    by (simp add: l22 l3 conv_def)
  have n3d: "l22 \<noteq> l3d"
    by (simp add: l22 l3d conv_def)
  have n4: "l22 \<noteq> l4"
    by (simp add: l22 l4 conv_def)
  have n4d: "l22 \<noteq> l4d"
    by (simp add: l22 l4d conv_def)
  have n5: "l22 \<noteq> l5"
    by (simp add: l22 l5 conv_def)
  have n6: "l22 \<noteq> l6"
    by (simp add: l22 l6 conv_def)
  have n6d: "l22 \<noteq> l6d"
    by (simp add: l22 l6d conv_def)
  have n7: "l22 \<noteq> l7"
    by (simp add: l22 l7 conv_def)
  have n7d: "l22 \<noteq> l7d"
    by (simp add: l22 l7d conv_def)
  have n8: "l22 \<noteq> l8"
    by (simp add: l22 l8 conv_def)
  have n9: "l22 \<noteq> l9"
    by (simp add: l22 l9 conv_def)
  have n9d: "l22 \<noteq> l9d"
    by (simp add: l22 l9d conv_def)
  have n10: "l22 \<noteq> l10"
    by (simp add: l22 l10 conv_def)
  have n10d: "l22 \<noteq> l10d"
    by (simp add: l22 l10d conv_def)
  have n11: "l22 \<noteq> l11"
    by (simp add: l22 l11 conv_def)
  have n11d: "l22 \<noteq> l11d"
    by (simp add: l22 l11d conv_def)
  have n12: "l22 \<noteq> l12"
    by (simp add: l22 l12 conv_def)
  have n12d: "l22 \<noteq> l12d"
    by (simp add: l22 l12d conv_def)
  have n13: "l22 \<noteq> l13"
    by (simp add: l22 l13 conv_def)
  have n14: "l22 \<noteq> l14"
    by (simp add: l22 l14 conv_def)
  have n14d: "l22 \<noteq> l14d"
    by (simp add: l22 l14d conv_def)
  have n15: "l22 \<noteq> l15"
    by (simp add: l22 l15 conv_def)
  have n16: "l22 \<noteq> l16"
    by (simp add: l22 l16 conv_def)
  have n16d: "l22 \<noteq> l16d"
    by (simp add: l22 l16d conv_def)
  have n17: "l22 \<noteq> l17"
    by (simp add: l22 l17 conv_def)
  have n17d: "l22 \<noteq> l17d"
    by (simp add: l22 l17d conv_def)
  have n18: "l22 \<noteq> l18"
    by (simp add: l22 l18 conv_def)
  have n19: "l22 \<noteq> l19"
    by (simp add: l22 l19 conv_def)
  have n20: "l22 \<noteq> l20"
    by (simp add: l22 l20 conv_def)
  have n21: "l22 \<noteq> l21"
    by (simp add: l22 l21 conv_def)
  have i22: "incomings l22 = []"
    by (simp add: l22)
  have "l22 \<notin> set (get_all_layers [l21])"
    by (simp add: g21 n0 n1 n1d n2 n3 n3d n4 n4d n5 n6 n6d n7 n7d n8 n9 n9d n10 n10d n11 n11d n12 n12d n13
        n14 n14d n15 n16 n16d n17 n17d n18 n19 n20 n21)
  with i22 have g21_22: "get_all_layers [l21, l22] =
      [l0, l1, l1d, l2, l3, l3d, l4, l4d, l5, l6, l6d, l7, l7d, l8, l9, l9d, l10, l10d, l11,
       l11d, l12, l12d, l13, l14, l14d, l15, l16, l16d, l17, l17d, l18, l19, l20, l21, l22]"
    by (simp add: get_all_layers_pair_input g21)
  have i23: "incomings l23 = [l21, l22]"
    by (simp add: l23)
  have g23: "get_all_layers [l23] =
      [l0, l1, l1d, l2, l3, l3d, l4, l4d, l5, l6, l6d, l7, l7d, l8, l9, l9d, l10, l10d, l11,
       l11d, l12, l12d, l13, l14, l14d, l15, l16, l16d, l17, l17d, l18, l19, l20, l21, l22,
       l23]"
    by (simp add: get_all_layers_single [of l23] i23 g21_22)
  have i24: "incomings l24 = [l23]"
    by (simp add: l24 conv_def)
  have g24: "get_all_layers [l24] =
      [l0, l1, l1d, l2, l3, l3d, l4, l4d, l5, l6, l6d, l7, l7d, l8, l9, l9d, l10, l10d, l11,
       l11d, l12, l12d, l13, l14, l14d, l15, l16, l16d, l17, l17d, l18, l19, l20, l21, l22,
       l23, l24]"
    by (simp add: get_all_layers_chain [OF i24] g23)
  have i25: "incomings l25 = [l24]"
    by (simp add: l25 conv_def)
  have g25: "get_all_layers [l25] =
      [l0, l1, l1d, l2, l3, l3d, l4, l4d, l5, l6, l6d, l7, l7d, l8, l9, l9d, l10, l10d, l11,
       l11d, l12, l12d, l13, l14, l14d, l15, l16, l16d, l17, l17d, l18, l19, l20, l21, l22,
       l23, l24, l25]"
    by (simp add: get_all_layers_chain [OF i25] g24)
  have i26: "incomings l26 = [l25]"
    by (simp add: l26 conv_def)
  have g26: "get_all_layers [l26] =
      [l0, l1, l1d, l2, l3, l3d, l4, l4d, l5, l6, l6d, l7, l7d, l8, l9, l9d, l10, l10d, l11,
       l11d, l12, l12d, l13, l14, l14d, l15, l16, l16d, l17, l17d, l18, l19, l20, l21, l22,
       l23, l24, l25, l26]"
    by (simp add: get_all_layers_chain [OF i26] g25)
  have i27: "incomings l27 = [l26]"
    by (simp add: l27 conv_def)
  have g27: "get_all_layers [l27] =
      [l0, l1, l1d, l2, l3, l3d, l4, l4d, l5, l6, l6d, l7, l7d, l8, l9, l9d, l10, l10d, l11,
       l11d, l12, l12d, l13, l14, l14d, l15, l16, l16d, l17, l17d, l18, l19, l20, l21, l22,
       l23, l24, l25, l26, l27]"
    by (simp add: get_all_layers_chain [OF i27] g26)
  have i28: "incomings l28 = [l27]"
    by (simp add: l28 conv_def)
  have g28: "get_all_layers [l28] =
      [l0, l1, l1d, l2, l3, l3d, l4, l4d, l5, l6, l6d, l7, l7d, l8, l9, l9d, l10, l10d, l11,
       l11d, l12, l12d, l13, l14, l14d, l15, l16, l16d, l17, l17d, l18, l19, l20, l21, l22,
       l23, l24, l25, l26, l27, l28]"
    by (simp add: get_all_layers_chain [OF i28] g27)
  have i29: "incomings l29 = [l28]"
    by (simp add: l29 conv_def)
  have g29: "get_all_layers [l29] =
      [l0, l1, l1d, l2, l3, l3d, l4, l4d, l5, l6, l6d, l7, l7d, l8, l9, l9d, l10, l10d, l11,
       l11d, l12, l12d, l13, l14, l14d, l15, l16, l16d, l17, l17d, l18, l19, l20, l21, l22,
       l23, l24, l25, l26, l27, l28, l29]"
    by (simp add: get_all_layers_chain [OF i29] g28)
  have i30: "incomings l30 = [l29]"
    by (simp add: l30 conv_def)
  have g30: "get_all_layers [l30] =
      [l0, l1, l1d, l2, l3, l3d, l4, l4d, l5, l6, l6d, l7, l7d, l8, l9, l9d, l10, l10d, l11,
       l11d, l12, l12d, l13, l14, l14d, l15, l16, l16d, l17, l17d, l18, l19, l20, l21, l22,
       l23, l24, l25, l26, l27, l28, l29, l30]"
    by (simp add: get_all_layers_chain [OF i30] g29)
  have i31: "incomings l31 = [l30]"
    by (simp add: l31 conv_def)
  have g31: "get_all_layers [l31] =
      [l0, l1, l1d, l2, l3, l3d, l4, l4d, l5, l6, l6d, l7, l7d, l8, l9, l9d, l10, l10d, l11,
       l11d, l12, l12d, l13, l14, l14d, l15, l16, l16d, l17, l17d, l18, l19, l20, l21, l22,
       l23, l24, l25, l26, l27, l28, l29, l30, l31]"
    by (simp add: get_all_layers_chain [OF i31] g30)
  have p0: "length (get_params l0) = 0"
    by (simp add: l0 conv_def)
  have p1: "length (get_params l1) = 2"
    by (simp add: l1 conv_def)
  have p1d: "length (get_params l1d) = 0"
    by (simp add: l1d conv_def)
  have p2: "length (get_params l2) = 0"
    by (simp add: l2 conv_def)
  have p3: "length (get_params l3) = 2"
    by (simp add: l3 conv_def)
  have p3d: "length (get_params l3d) = 0"
    by (simp add: l3d conv_def)
  have p4: "length (get_params l4) = 2"
    by (simp add: l4 conv_def)
  have p4d: "length (get_params l4d) = 0"
    by (simp add: l4d conv_def)
  have p5: "length (get_params l5) = 0"
    by (simp add: l5 conv_def)
  have p6: "length (get_params l6) = 2"
    by (simp add: l6 conv_def)
  have p6d: "length (get_params l6d) = 0"
    by (simp add: l6d conv_def)
  have p7: "length (get_params l7) = 2"
    by (simp add: l7 conv_def)
  have p7d: "length (get_params l7d) = 0"
    by (simp add: l7d conv_def)
  have p8: "length (get_params l8) = 0"
    by (simp add: l8 conv_def)
  have p9: "length (get_params l9) = 2"
    by (simp add: l9 conv_def)
  have p9d: "length (get_params l9d) = 0"
    by (simp add: l9d conv_def)
  have p10: "length (get_params l10) = 2"
    by (simp add: l10 conv_def)
  have p10d: "length (get_params l10d) = 0"
    by (simp add: l10d conv_def)
  have p11: "length (get_params l11) = 2"
    by (simp add: l11 conv_def)
  have p11d: "length (get_params l11d) = 0"
    by (simp add: l11d conv_def)
  have p12: "length (get_params l12) = 2"
    by (simp add: l12 conv_def)
  have p12d: "length (get_params l12d) = 0"
    by (simp add: l12d conv_def)
  have p13: "length (get_params l13) = 0"
    by (simp add: l13 conv_def)
  have p14: "length (get_params l14) = 2"
    by (simp add: l14 conv_def)
  have p14d: "length (get_params l14d) = 0"
    by (simp add: l14d conv_def)
  have p15: "length (get_params l15) = 2"
    by (simp add: l15 conv_def)
  have p15d: "length (get_params l15d) = 0"
    by (simp add: l15d conv_def)
  have p16: "length (get_params l16) = 2"
    by (simp add: l16 conv_def)
  have p16d: "length (get_params l16d) = 0"
    by (simp add: l16d conv_def)
  have p17: "length (get_params l17) = 2"
    by (simp add: l17 conv_def)
  have p17d: "length (get_params l17d) = 0"
    by (simp add: l17d conv_def)
  have p18: "length (get_params l18) = 0"
    by (simp add: l18 conv_def)
  have p19: "length (get_params l19) = 0"
    by (simp add: l19 conv_def)
  have p20: "length (get_params l20) = 2"
    by (simp add: l20 conv_def)
  have p21: "length (get_params l21) = 0"
    by (simp add: l21 conv_def)
  have p22: "length (get_params l22) = 0"
    by (simp add: l22 conv_def)
  have p23: "length (get_params l23) = 0"
    by (simp add: l23 conv_def)
  have p24: "length (get_params l24) = 0"
    by (simp add: l24 conv_def)
  have p25: "length (get_params l25) = 0"
    by (simp add: l25 conv_def)
  have p26: "length (get_params l26) = 2"
    by (simp add: l26 conv_def)
  have p27: "length (get_params l27) = 0"
    by (simp add: l27 conv_def)
  have p28: "length (get_params l28) = 0"
    by (simp add: l28 conv_def)
  have p29: "length (get_params l29) = 2"
    by (simp add: l29 conv_def)
  have p30: "length (get_params l30) = 0"
    by (simp add: l30 conv_def)
  have p31: "length (get_params l31) = 0"
    by (simp add: l31 conv_def)
  have c17: "length (get_all_params [l17]) = 26"
    by (simp add: length_get_all_params g17
        p0 p1 p1d p2 p3 p3d p4 p4d p5 p6 p6d p7 p7d p8 p9 p9d p10 p10d p11 p11d p12 p12d p13
        p14 p14d p15 p15d p16 p16d p17 p17d p18 p19 p20 p21 p22 p23 p24 p25 p26 p27 p28 p29
        p30 p31)
  have c31: "length (get_all_params [l31]) = 32"
    by (simp add: length_get_all_params g31
        p0 p1 p1d p2 p3 p3d p4 p4d p5 p6 p6d p7 p7d p8 p9 p9d p10 p10d p11 p11d p12 p12d p13
        p14 p14d p15 p15d p16 p16d p17 p17d p18 p19 p20 p21 p22 p23 p24 p25 p26 p27 p28 p29
        p30 p31)
  from assms net have "od_getitem net ''17'' = Inr l17" and "od_getitem net ''31'' = Inr l31"
    by (auto simp: od_getitem_def)
  with c17 c31 show ?thesis
    by blast
qed

subsection \<open>Archive names, reading back and setting values\<close>

declare str_nat.simps [simp del]

lemma digit_value_digit: "d < 10 \<Longrightarrow> digit_value (digit d) = d"
proof -
  assume "d < 10"
  then have "d = 0 \<or> d = 1 \<or> d = 2 \<or> d = 3 \<or> d = 4 \<or> d = 5 \<or> d = 6 \<or> d = 7 \<or> d = 8 \<or> d = 9"
    by presburger
  then show ?thesis
    by (elim disjE) (simp_all add: digit_value_def digit_def)
qed

lemma str_nat_value: "foldl (\<lambda>acc c. 10 * acc + digit_value c) 0 (str_nat n) = n"
proof (induction n rule: str_nat.induct)
  case (1 n)
  show ?case
  proof (cases "n < 10")
    case True
    then show ?thesis
      by (simp add: str_nat.simps [of n] digit_value_digit)
  next
    case False
    then have "str_nat n = str_nat (n div 10) @ [digit (n mod 10)]"
      by (simp add: str_nat.simps [of n])
    moreover have "foldl (\<lambda>acc c. 10 * acc + digit_value c) 0 (str_nat (n div 10)) = n div 10"
      using False by (rule "1.IH")
    moreover have "digit_value (digit (n mod 10)) = n mod 10"
      by (rule digit_value_digit) simp
    ultimately show ?thesis
      by simp
  qed
qed

lemma str_nat_inj: "str_nat m = str_nat n \<Longrightarrow> m = n"
  by (metis str_nat_value)

lemma arr_name_inj: "arr_name i = arr_name j \<Longrightarrow> i = j"
  by (simp add: arr_name_def str_nat_inj)

lemma distinct_arr_names: "distinct (map arr_name [0..<n])"
  by (simp add: distinct_map inj_on_def arr_name_inj)

lemma mapE_Inr:
  "(\<And>x. x \<in> set xs \<Longrightarrow> f x = Inr (g x)) \<Longrightarrow> mapE f xs = Inr (map g xs)"
  by (induction xs) simp_all

lemma mapE_not_NotImplemented:
  "(\<And>x e. f x = Inl e \<Longrightarrow> e \<noteq> NotImplementedError) \<Longrightarrow>
   mapE f xs \<noteq> Inl NotImplementedError"
  by (induction xs) (auto simp: bindE_eq_Inl)

text \<open>Reading back, by name and in index order, the arrays that \<open>savez\<close> wrote.\<close>

lemma read_arrays:
  assumes "length vs = length f" and "\<And>i. i < length f \<Longrightarrow> map_of f (arr_name i) = Some (vs ! i)"
  shows "mapE (\<lambda>i. od_getitem f (arr_name i)) [0..<length (od_keys f)] = Inr vs"
proof -
  have "mapE (\<lambda>i. od_getitem f (arr_name i)) [0..<length f] = Inr (map (\<lambda>i. vs ! i) [0..<length f])"
    by (rule mapE_Inr) (simp add: od_getitem_def assms(2))
  then show ?thesis
    by (simp add: od_keys_def assms(1) [symmetric] map_nth)
qed

lemma read_savez:
  "mapE (\<lambda>i. od_getitem (zip (map arr_name [0..<length vs]) vs) (arr_name i))
     [0..<length (od_keys (zip (map arr_name [0..<length vs]) vs))] = Inr vs"
proof (rule read_arrays)
  fix i
  assume "i < length (zip (map arr_name [0..<length vs]) vs)"
  then have i: "i < length vs" by simp
  then have "map_of (zip (map arr_name [0..<length vs]) vs) (map arr_name [0..<length vs] ! i)
      = Some (vs ! i)"
    by (intro map_of_zip_nth) (simp_all add: distinct_arr_names)
  with i show "map_of (zip (map arr_name [0..<length vs]) vs) (arr_name i) = Some (vs ! i)"
    by simp
qed simp

lemma set_values_error: "set_values env pvs = Inl e \<Longrightarrow> e = ValueError"
  by (induction env pvs rule: set_values.induct) (auto split: if_splits)

lemma set_values_other:
  "set_values env pvs = Inr env' \<Longrightarrow> p \<notin> set (map fst pvs) \<Longrightarrow> pvals env' p = pvals env p"
proof (induction env pvs rule: set_values.induct)
  case (1 env)
  then show ?case by simp
next
  case (2 env q v pvs)
  let ?env1 = "env\<lparr>pvals := (pvals env)(q := v)\<rparr>"
  from "2.prems" have ok: "shape (pvals env q) = shape v" and r: "set_values ?env1 pvs = Inr env'"
    and np: "p \<notin> set (map fst pvs)" and pq: "p \<noteq> q"
    by (auto split: if_splits)
  from "2.IH" [OF _ r np] ok have "pvals env' p = pvals ?env1 p"
    by simp
  with pq show ?case
    by simp
qed

lemma set_values_result:
  "set_values env pvs = Inr env' \<Longrightarrow> distinct (map fst pvs) \<Longrightarrow>
   files env' = files env \<and> stdout env' = stdout env
   \<and> map (pvals env') (map fst pvs) = map snd pvs"
proof (induction env pvs rule: set_values.induct)
  case (1 env)
  then show ?case by simp
next
  case (2 env p v pvs)
  let ?env1 = "env\<lparr>pvals := (pvals env)(p := v)\<rparr>"
  from "2.prems" have ok: "shape (pvals env p) = shape v" and r: "set_values ?env1 pvs = Inr env'"
    and d: "distinct (map fst pvs)" and np: "p \<notin> set (map fst pvs)"
    by (auto split: if_splits)
  from "2.IH" r d ok have ih: "files env' = files ?env1 \<and> stdout env' = stdout ?env1
      \<and> map (pvals env') (map fst pvs) = map snd pvs"
    by simp
  from set_values_other [OF r np] have "pvals env' p = v"
    by simp
  with ih show ?case
    by simp
qed

lemma set_values_ok:
  "distinct (map fst pvs) \<Longrightarrow> list_all (\<lambda>(p, v). shape (pvals env p) = shape v) pvs \<Longrightarrow>
   \<exists>env'. set_values env pvs = Inr env'"
proof (induction env pvs rule: set_values.induct)
  case (1 env)
  then show ?case by simp
next
  case (2 env p v pvs)
  let ?env1 = "env\<lparr>pvals := (pvals env)(p := v)\<rparr>"
  from "2.prems" have ok: "shape (pvals env p) = shape v"
    and d: "distinct (map fst pvs)" and np: "p \<notin> set (map fst pvs)"
    and rest: "list_all (\<lambda>(q, w). shape (pvals env q) = shape w) pvs"
    by auto
  have "list_all (\<lambda>(q, w). shape (pvals ?env1 q) = shape w) pvs"
    unfolding list_all_iff
  proof
    fix qw
    assume qw: "qw \<in> set pvs"
    then have "fst qw \<noteq> p"
      using np by auto
    moreover from rest qw have "shape (pvals env (fst qw)) = shape (snd qw)"
      by (auto simp: list_all_iff)
    ultimately show "case qw of (q, w) \<Rightarrow> shape (pvals ?env1 q) = shape w"
      by (simp add: case_prod_beta)
  qed
  with "2.IH" ok d have "\<exists>env'. set_values ?env1 pvs = Inr env'"
    by simp
  with ok show ?case
    by simp
qed

lemma set_all_param_values_error:
  "set_all_param_values env ls vs = Inl e \<Longrightarrow> e = ValueError"
  by (auto simp: set_all_param_values_def Let_def set_values_error split: if_splits)

lemma set_all_param_values_result:
  assumes "set_all_param_values env ls vs = Inr env'"
  shows "get_all_param_values env' ls = vs \<and> files env' = files env \<and> stdout env' = stdout env"
proof -
  let ?ps = "get_all_params ls"
  from assms have len: "length ?ps = length vs" and r: "set_values env (zip ?ps vs) = Inr env'"
    by (auto simp: set_all_param_values_def Let_def split: if_splits)
  from len have "map fst (zip ?ps vs) = ?ps" and "map snd (zip ?ps vs) = vs"
    by simp_all
  with set_values_result [OF r] get_all_params_distinct [of ls] show ?thesis
    by (simp add: get_all_param_values_def)
qed

lemma set_all_param_values_ok:
  assumes "length vs = length (get_all_params ls)"
    and "\<And>i. i < length vs \<Longrightarrow> shape (pvals env (get_all_params ls ! i)) = shape (vs ! i)"
  shows "\<exists>env'. set_all_param_values env ls vs = Inr env'"
proof -
  let ?ps = "get_all_params ls"
  from assms(1) have "map fst (zip ?ps vs) = ?ps"
    by simp
  moreover from assms have "list_all (\<lambda>(p, v). shape (pvals env p) = shape v) (zip ?ps vs)"
    by (simp add: list_all_length)
  ultimately have "\<exists>env'. set_values env (zip ?ps vs) = Inr env'"
    using get_all_params_distinct [of ls] by (intro set_values_ok) simp_all
  with assms(1) show ?thesis
    by (simp add: set_all_param_values_def)
qed

lemma endswith_same_length:
  "endswith s a \<Longrightarrow> endswith s b \<Longrightarrow> length a = length b \<Longrightarrow> a = b"
  by (auto simp: endswith_def)

lemma endswith_pkl_not_npz: "endswith s ''.pkl'' \<Longrightarrow> \<not> endswith s ''.npz''"
  using endswith_same_length [of s "''.pkl''" "''.npz''"] by auto

lemma write_file_simps [simp]:
  "files (write_file env fname c) = (files env)(fname \<mapsto> c)"
  "pvals (write_file env fname c) = pvals env"
  "stdout (write_file env fname c) = stdout env"
  by (simp_all add: write_file_def)

lemma np_load_Npz: "files env fname = Some (Npz f) \<Longrightarrow> np_load env fname = Inr f"
  by (simp add: np_load_def)

lemma np_load_error: "np_load env fname = Inl e \<Longrightarrow> e = IOError \<or> e = AttributeError"
  by (auto simp: np_load_def split: option.splits file_content.splits)

lemma pickle_load_error: "pickle_load env fname = Inl e \<Longrightarrow> e = IOError \<or> e = UnpicklingError"
  by (auto simp: pickle_load_def split: option.splits file_content.splits)

lemma pickled_getitem_error: "pickled_getitem obj k = Inl e \<Longrightarrow> e = KeyError \<or> e = TypeError"
  by (cases obj) (auto simp: od_getitem_def split: option.splits)

text \<open>Loading an archive whose arrays \<open>arr_0\<close>, ... are \<open>vs\<close>, in this order.\<close>

lemma load_weights_npz:
  assumes "endswith filename ''.npz''" and "files env filename = Some (Npz f)"
    and "length vs = length f"
    and "\<And>i. i < length f \<Longrightarrow> map_of f (arr_name i) = Some (vs ! i)"
  shows "load_weights env layer filename = set_all_param_values env [layer] vs"
  using assms by (simp add: load_weights_def np_load_Npz read_arrays)

lemma load_weights_savez:
  assumes "endswith filename ''.npz''" and "files env filename = Some (savez vs)"
  shows "load_weights env layer filename = set_all_param_values env [layer] vs"
  using assms by (simp add: load_weights_def np_load_Npz savez_def read_savez)

lemma load_weights_pkl:
  assumes "endswith filename ''.pkl''" and "files env filename = Some (Pkl (PDict d))"
    and "map_of d ''param values'' = Some vs"
  shows "load_weights env layer filename = set_all_param_values env [layer] vs"
  using assms endswith_pkl_not_npz [of filename]
  by (simp add: load_weights_def pickle_load_def od_getitem_def)

lemma load_weights_NotImplemented:
  "load_weights env layer filename = Inl NotImplementedError
   \<longleftrightarrow> \<not> endswith filename ''.npz'' \<and> \<not> endswith filename ''.pkl''"
proof -
  have "mapE (\<lambda>i. od_getitem f (arr_name i)) is \<noteq> Inl NotImplementedError" for f :: "(string, 'a ndarray) ordered_dict" and "is"
    by (rule mapE_not_NotImplemented) (auto simp: od_getitem_def split: option.splits)
  then show ?thesis
    by (auto simp: load_weights_def bindE_eq_Inl dest: np_load_error pickle_load_error
        pickled_getitem_error set_all_param_values_error)
qed

lemma arr_name_0: "arr_name 0 = ''arr_0''"
  by (simp add: arr_name_def str_nat.simps [of 0] digit_def)

lemma arr_name_1: "arr_name (Suc 0) = ''arr_1''"
  by (simp add: arr_name_def str_nat.simps [of "Suc 0"] digit_def)

lemma get_all_params_dense_on_input:
  "get_all_params [DenseLayer (InputLayer bs dims name) nu nl W b name'] =
     [(DenseLayer (InputLayer bs dims name) nu nl W b name', ''W''),
      (DenseLayer (InputLayer bs dims name) nu nl W b name', ''b'')]"
  by (simp add: get_all_params_concat
      get_all_layers_chain [of _ "InputLayer bs dims name"] get_all_layers_input)

lemma set_all_param_values_other:
  "set_all_param_values env ls vs = Inr env' \<Longrightarrow> p \<notin> set (get_all_params ls) \<Longrightarrow>
   pvals env' p = pvals env p"
proof -
  assume r: "set_all_param_values env ls vs = Inr env'" and p: "p \<notin> set (get_all_params ls)"
  let ?ps = "get_all_params ls"
  from r have len: "length ?ps = length vs" and s: "set_values env (zip ?ps vs) = Inr env'"
    by (auto simp: set_all_param_values_def Let_def split: if_splits)
  from len p have "p \<notin> set (map fst (zip ?ps vs))"
    by simp
  with s show ?thesis
    by (rule set_values_other)
qed

lemma save_weights_npz:
  "endswith filename ''.npz'' \<Longrightarrow>
   save_weights env layer filename
     = Inr (write_file env filename (savez (get_all_param_values env [layer])))"
  by (simp add: save_weights_def)

text \<open>
  Loading a file written by \<open>save_weights\<close> into parameters of the shapes saved sets
  them to the values saved.
\<close>

lemma load_saved:
  assumes npz: "endswith filename ''.npz''"
    and saved: "files env' filename = Some (savez (get_all_param_values env [layer]))"
    and shapes: "\<And>p. p \<in> set (get_all_params [layer]) \<Longrightarrow>
                   shape (pvals env' p) = shape (pvals env p)"
  shows "\<exists>env2. load_weights env' layer filename = Inr env2
           \<and> get_all_param_values env2 [layer] = get_all_param_values env [layer]
           \<and> files env2 = files env' \<and> stdout env2 = stdout env'
           \<and> (\<forall>p. p \<notin> set (get_all_params [layer]) \<longrightarrow> pvals env2 p = pvals env' p)"
proof -
  let ?vs = "get_all_param_values env [layer]"
  have load: "load_weights env' layer filename = set_all_param_values env' [layer] ?vs"
    using npz saved by (rule load_weights_savez)
  have "\<exists>env2. set_all_param_values env' [layer] ?vs = Inr env2"
  proof (rule set_all_param_values_ok)
    show "length ?vs = length (get_all_params [layer])"
      by (simp add: get_all_param_values_def)
  next
    fix i
    assume "i < length ?vs"
    then have i: "i < length (get_all_params [layer])"
      by (simp add: get_all_param_values_def)
    then have "get_all_params [layer] ! i \<in> set (get_all_params [layer])"
      by simp
    with i shapes show "shape (pvals env' (get_all_params [layer] ! i)) = shape (?vs ! i)"
      by (simp add: get_all_param_values_def)
  qed
  then obtain env2 where set: "set_all_param_values env' [layer] ?vs = Inr env2"
    by blast
  from set_all_param_values_result [OF set] set_all_param_values_other [OF set] load set
  show ?thesis
    by simp
qed

subsection \<open>Building the network from a weight file, and what BCNN adds\<close>

lemma set_all_param_values_uniform:
  assumes len: "length vs = length (get_all_params ls)"
    and env: "\<And>p. shape (pvals env p) = s"
    and vs: "\<And>v. v \<in> set vs \<Longrightarrow> shape v = s"
  shows "\<exists>env'. set_all_param_values env ls vs = Inr env' \<and> files env' = files env
           \<and> stdout env' = stdout env \<and> (\<forall>p. shape (pvals env' p) = s)"
proof -
  have "\<exists>env'. set_all_param_values env ls vs = Inr env'"
    using len by (rule set_all_param_values_ok) (simp add: env vs)
  then obtain env' where r: "set_all_param_values env ls vs = Inr env'"
    by blast
  have "shape (pvals env' p) = s" for p
  proof (cases "p \<in> set (get_all_params ls)")
    case True
    then have "pvals env' p \<in> set (get_all_param_values env' ls)"
      by (simp add: get_all_param_values_def)
    with set_all_param_values_result [OF r] vs show ?thesis
      by simp
  next
    case False
    with set_all_param_values_other [OF r] env show ?thesis
      by simp
  qed
  with r set_all_param_values_result [OF r] show ?thesis
    by simp
qed

lemma build_model_file:
  assumes pkl: "files env fname = Some (Pkl (PList vs))" and len: "length vs = 32"
    and env: "\<And>q. shape (pvals env q) = s"
    and vs: "\<And>v. v \<in> set vs \<Longrightarrow> shape v = s"
  shows "\<exists>network env1. build_model env w h (Some fname) nc bs p = Inr (network, env1)
           \<and> declare_layers w h nc bs p = Inr network
           \<and> files env1 = files env \<and> stdout env1 = stdout env
           \<and> (\<forall>q. shape (pvals env1 q) = s)"
proof -
  obtain net where net: "declare_layers w h nc bs p = Inr net"
    using declare_layers_keys by blast
  then obtain l31 where l31: "od_getitem net ''31'' = Inr l31"
    and n: "length (get_all_params [l31]) = 32"
    using declare_layers_params by blast
  from len n have "length vs = length (get_all_params [l31])"
    by simp
  then obtain env1 where "set_all_param_values env [l31] vs = Inr env1"
    and "files env1 = files env" and "stdout env1 = stdout env"
    and "\<forall>q. shape (pvals env1 q) = s"
    using set_all_param_values_uniform [of vs "[l31]" env s] env vs by blast
  with net l31 pkl show ?thesis
    by (simp add: build_model_def pickle_load_def)
qed

lemma layer_keys_distinct: "distinct layer_keys"
  by (simp add: layer_keys_def)

lemma head_keys_new:
  "''global_pool'' \<notin> set layer_keys" "''softmax_input'' \<notin> set layer_keys"
  "''logreg'' \<notin> set layer_keys"
  by (simp_all add: layer_keys_def)

lemma od_getitem_append_left:
  "k \<in> set (od_keys d) \<Longrightarrow> od_getitem (d @ e) k = od_getitem d k"
  by (induction d) (auto simp: od_keys_def od_getitem_def)

text \<open>
  What \<open>BCNN.__init__\<close> does once the network is built and the last layer is one of
  its keys: the entries after the last layer are dropped, the head is appended, and
  what remains is the optional loading of weights.
\<close>

lemma BCNN_init_structure:
  assumes build: "build_model env 512 512 (Some ORIGINAL_WEIGHTS) 5 None p_conv
      = Inr (network, env1)"
    and key: "last_layer \<in> set (od_keys network)"
  shows "\<exists>kept l dropped. network = kept @ (last_layer, l) # dropped
    \<and> last_layer \<notin> set (od_keys kept) \<and> last_layer \<notin> set (od_keys dropped)
    \<and> remove_layers_after network last_layer = Inr (kept @ [(last_layer, l)])
    \<and> (\<forall>weights n_classes. BCNN_init env p_conv last_layer weights n_classes =
      bindE (case weights of None \<Rightarrow> Inr env1
             | Some f \<Rightarrow> load_weights env1 (logreg_layer l n_classes) f)
        (\<lambda>env2. Inr (BCNN_model (kept @ (last_layer, l) # head_layers l n_classes), env2)))"
proof -
  have keys: "od_keys network = layer_keys"
    using build by (rule build_model_network_keys)
  obtain rest where first: "network = (''0'', InputLayer None [3, 512, 512] ''images'') # rest"
    using build_model_network [OF build] declare_layers_first by blast
  obtain kept dropped l where split: "network = kept @ (last_layer, l) # dropped"
    and nd: "last_layer \<notin> set (od_keys dropped)"
    and loop: "remove_layers_after network last_layer = Inr (kept @ [(last_layer, l)])"
    using remove_layers_after_found [OF key] by blast
  let ?A = "kept @ [(last_layer, l)]"
  from keys layer_keys_distinct have "distinct (od_keys network)"
    by simp
  with split have nk: "last_layer \<notin> set (od_keys kept)"
    by (auto simp: od_keys_def)
  have "od_keys network = od_keys ?A @ od_keys dropped"
    using split by (simp add: od_keys_def)
  then have "set (od_keys ?A) \<subseteq> set (od_keys network)"
    by simp
  with keys have sub: "set (od_keys ?A) \<subseteq> set layer_keys"
    by simp
  have zero: "''0'' \<in> set (od_keys ?A)"
    using first split by (cases kept) (auto simp: od_keys_def)
  have g0: "od_getitem ?A ''0'' = Inr (InputLayer None [3, 512, 512] ''images'')"
  proof -
    have "od_getitem (?A @ dropped) ''0'' = od_getitem ?A ''0''"
      using zero by (rule od_getitem_append_left)
    with first split show ?thesis
      by (simp add: od_getitem_head)
  qed
  let ?gp = "ConcatLayer [GlobalPoolLayer l T_mean, GlobalPoolLayer l T_max] (Some 1)"
  let ?B = "kept @ [(last_layer, l), (''global_pool'', ?gp)]"
  have last: "od_getitem ?A last_layer = Inr l"
    using nk by (rule od_getitem_snoc)
  have n1: "''global_pool'' \<notin> set (od_keys ?A)"
    using sub head_keys_new by blast
  have s1: "od_setitem ?A ''global_pool'' ?gp = ?B"
    using od_setitem_new [OF n1] by simp
  have g1: "od_getitem ?B ''global_pool'' = Inr ?gp"
    using od_getitem_snoc [OF n1] by simp
  have n2: "''softmax_input'' \<notin> set (od_keys ?B)"
    using sub head_keys_new by (auto simp: od_keys_def)
  have n3: "''logreg'' \<notin> set (od_keys (?B @ [(''softmax_input'', si)]))" for si
    using sub head_keys_new by (auto simp: od_keys_def)
  have body: "BCNN_init env p_conv last_layer weights n_classes =
      bindE (case weights of None \<Rightarrow> Inr env1
             | Some f \<Rightarrow> load_weights env1 (logreg_layer l n_classes) f)
        (\<lambda>env2. Inr (BCNN_model (kept @ (last_layer, l) # head_layers l n_classes), env2))"
    for weights n_classes
  proof -
    let ?si = "DenseLayer ?gp n_classes None None None None"
    let ?lr = "NonlinearityLayer ?si softmax"
    let ?C = "kept @ [(last_layer, l), (''global_pool'', ?gp), (''softmax_input'', ?si)]"
    let ?N = "kept @ [(last_layer, l), (''global_pool'', ?gp), (''softmax_input'', ?si),
      (''logreg'', ?lr)]"
    have s2: "od_setitem ?B ''softmax_input'' ?si = ?C"
      using od_setitem_new [OF n2] by simp
    have g2: "od_getitem ?C ''softmax_input'' = Inr ?si"
      using od_getitem_snoc [OF n2] by simp
    have s3: "od_setitem ?C ''logreg'' ?lr = ?N"
      using od_setitem_new [OF n3] by simp
    have g3: "od_getitem ?N ''logreg'' = Inr ?lr"
      using od_getitem_snoc [OF n3] by simp
    have gN: "od_getitem ?N ''0'' = Inr (InputLayer None [3, 512, 512] ''images'')"
      using od_getitem_append_left [OF zero, of "head_layers l n_classes"] g0
      by (simp add: head_layers_def Let_def)
    have N: "kept @ (last_layer, l) # head_layers l n_classes = ?N"
      by (simp add: head_layers_def Let_def)
    have lr: "logreg_layer l n_classes = ?lr"
      by (simp add: logreg_layer_def head_layers_def Let_def)
    show ?thesis
      unfolding BCNN_init_def build
      by (simp add: loop last s1 g1 s2 g2 s3 g3 gN Let_def Model_init_def BCNN_model_def
          N lr split: option.split)
  qed
  from split nk nd loop body show ?thesis
    by blast
qed

lemma build_model_None_keys:
  "\<exists>network. build_model env w h None nc bs p = Inr (network, env)
     \<and> od_keys network = layer_keys"
  using declare_layers_keys [of w h nc bs p] by (auto simp: build_model_None)

lemma split_at_key:
  "xs @ k # ys = zs \<Longrightarrow> k \<notin> set xs \<Longrightarrow> xs = takeWhile (\<lambda>x. x \<noteq> k) zs"
  by (induction xs arbitrary: zs) auto

subsection \<open>weights2pickle\<close>

lemma get_all_params_head:
  "length (get_all_params [logreg_layer l n_classes]) = length (get_all_params [l]) + 2"
proof -
  let ?mean = "GlobalPoolLayer l T_mean" and ?mx = "GlobalPoolLayer l T_max"
  let ?gp = "ConcatLayer [?mean, ?mx] (Some 1)"
  let ?si = "DenseLayer ?gp n_classes None None None None"
  have "get_all_layers [NonlinearityLayer ?si softmax]
      = get_all_layers [l] @ [?mean, ?mx, ?gp, ?si, NonlinearityLayer ?si softmax]"
    by (rule get_all_layers_head) simp_all
  then show ?thesis
    by (simp add: length_get_all_params logreg_layer_def head_layers_def Let_def)
qed

text \<open>
  \<open>BCNN(p_conv, last_layer='17', weights=wfile)\<close> returns when the original weight
  dump holds 32 arrays and the weight file 28 arrays, all of the shape of the
  parameters.
\<close>

lemma BCNN_init_17:
  assumes pkl: "files env ORIGINAL_WEIGHTS = Some (Pkl (PList vs))" and "length vs = 32"
    and npz: "files env wfile = Some (savez ws)" and "length ws = 28"
    and ends: "endswith wfile ''.npz''"
    and env: "\<And>q. shape (pvals env q) = s"
    and vs: "\<And>v. v \<in> set vs \<Longrightarrow> shape v = s"
    and ws: "\<And>v. v \<in> set ws \<Longrightarrow> shape v = s"
  shows "\<exists>m env2. BCNN_init env p_conv ''17'' (Some wfile) n_classes = Inr (m, env2)
    \<and> od_keys (self_net m) =
        [''0'', ''1'', ''1d'', ''2'', ''3'', ''3d'', ''4'', ''4d'', ''5'', ''6'', ''6d'',
        ''7'', ''7d'', ''8'', ''9'', ''9d'', ''10'', ''10d'', ''11'', ''11d'', ''12'',
        ''12d'', ''13'', ''14'', ''14d'', ''15'', ''15d'', ''16'', ''16d'', ''17''] @ [''global_pool'', ''softmax_input'', ''logreg'']
    \<and> files env2 = files env \<and> stdout env2 = stdout env"
proof -
  obtain network env1
    where b: "build_model env 512 512 (Some ORIGINAL_WEIGHTS) 5 None p_conv = Inr (network, env1)"
      and d: "declare_layers 512 512 5 None p_conv = Inr network"
      and f1: "files env1 = files env" and o1: "stdout env1 = stdout env"
      and s1: "\<forall>q. shape (pvals env1 q) = s"
    using build_model_file [OF pkl assms(2) env vs] by blast
  have keys: "od_keys network = layer_keys"
    using b by (rule build_model_network_keys)
  then have k: "''17'' \<in> set (od_keys network)"
    by (simp add: layer_keys_def)
  obtain kept l dropped where split: "network = kept @ (''17'', l) # dropped"
    and nk: "''17'' \<notin> set (od_keys kept)"
    and init: "\<And>weights n_classes. BCNN_init env p_conv ''17'' weights n_classes =
      bindE (case weights of None \<Rightarrow> Inr env1
             | Some f \<Rightarrow> load_weights env1 (logreg_layer l n_classes) f)
        (\<lambda>env2. Inr (BCNN_model (kept @ (''17'', l) # head_layers l n_classes), env2))"
    using BCNN_init_structure [OF b k] by blast
  have "od_getitem network ''17'' = Inr l"
    unfolding split using nk by (rule od_getitem_new)
  then have "length (get_all_params [l]) = 26"
    using declare_layers_params [OF d] by auto
  then have n: "length ws = length (get_all_params [logreg_layer l n_classes])"
    by (simp add: get_all_params_head assms(4))
  have "load_weights env1 (logreg_layer l n_classes) wfile
      = set_all_param_values env1 [logreg_layer l n_classes] ws"
    using ends npz by (intro load_weights_savez) (simp_all add: f1)
  moreover obtain env2
    where "set_all_param_values env1 [logreg_layer l n_classes] ws = Inr env2"
      and "files env2 = files env1" and "stdout env2 = stdout env1"
    using set_all_param_values_uniform [OF n, of env1 s] s1 ws by blast
  ultimately have r: "BCNN_init env p_conv ''17'' (Some wfile) n_classes
      = Inr (BCNN_model (kept @ (''17'', l) # head_layers l n_classes), env2)"
    and f2: "files env2 = files env" and o2: "stdout env2 = stdout env"
    by (simp_all add: init f1 o1)
  from split keys have "od_keys kept @ ''17'' # od_keys dropped = layer_keys"
    by (simp add: od_keys_def)
  then have "od_keys kept = takeWhile (\<lambda>x. x \<noteq> ''17'') layer_keys"
    using nk by (rule split_at_key)
  then have "od_keys (kept @ [(''17'', l)]) =
      [''0'', ''1'', ''1d'', ''2'', ''3'', ''3d'', ''4'', ''4d'', ''5'', ''6'', ''6d'',
        ''7'', ''7d'', ''8'', ''9'', ''9d'', ''10'', ''10d'', ''11'', ''11d'', ''12'',
        ''12d'', ''13'', ''14'', ''14d'', ''15'', ''15d'', ''16'', ''16d'', ''17'']"
    by (simp add: layer_keys_def od_keys_def)
  then have "od_keys (self_net (BCNN_model (kept @ (''17'', l) # head_layers l n_classes))) =
      [''0'', ''1'', ''1d'', ''2'', ''3'', ''3d'', ''4'', ''4d'', ''5'', ''6'', ''6d'',
        ''7'', ''7d'', ''8'', ''9'', ''9d'', ''10'', ''10d'', ''11'', ''11d'', ''12'',
        ''12d'', ''13'', ''14'', ''14d'', ''15'', ''15d'', ''16'', ''16d'', ''17''] @ [''global_pool'', ''softmax_input'', ''logreg'']"
    by (simp add: BCNN_model_def Model_init_def od_keys_def head_layers_def Let_def)
  with r f2 o2 show ?thesis
    by blast
qed

lemma str_in_names:
  "str_in ''bcnn1'' ''bcnn1''" "\<not> str_in ''bcnn1'' ''bcnn2''" "str_in ''bcnn2'' ''bcnn2''"
  by (simp_all add: str_in_def upt_rec [of 0] upt_rec [of "Suc 0"] upt_rec [of "Suc (Suc 0)"]
      upt_rec [of 3] upt_rec [of 4] upt_rec [of 5])

text \<open>\<open>weights2pickle\<close> for a valid name, from the construction of the model on.\<close>

lemma weights2pickle_valid_name:
  assumes name: "name = ''bcnn1'' \<or> name = ''bcnn2''"
  shows "weights2pickle env name output_layer =
    bindE (BCNN_init env 0.2 ''17''
             (Some (''models/weights_'' @ name @ ''_'' @ model_hash name @ ''.npz'')) 2)
      (\<lambda>(m, env1).
        if output_layer \<notin> set (od_keys (self_net m)) then Inl AssertionError
        else bindE (remove_layers_after (self_net m) output_layer) (\<lambda>network.
             bindE (last_item (od_keys network)) (\<lambda>k.
             if k \<noteq> output_layer then Inl AssertionError
             else Inr ((save_model env1 (m\<lparr>self_net := network\<rparr>)
                         (name @ ''_'' @ model_hash name @ ''_'' @ output_layer @ ''.pkl''))
                       \<lparr>stdout := stdout env1 @ [''Saved model to '' @ name @ ''_''
                           @ model_hash name @ ''_'' @ output_layer @ ''.pkl'']\<rparr>))))"
  using name
proof
  assume n: "name = ''bcnn1''"
  show ?thesis
    by (cases "BCNN_init env 0.2 ''17'' (Some ''models/weights_bcnn1_392bea6.npz'') 2")
      (auto simp: weights2pickle_def n str_in_names model_hash_def Let_def save_model_def
        cong del: if_weak_cong)
next
  assume n: "name = ''bcnn2''"
  show ?thesis
    by (cases "BCNN_init env 0.2 ''17'' (Some ''models/weights_bcnn2_b69aadd.npz'') 2")
      (auto simp: weights2pickle_def n str_in_names model_hash_def Let_def save_model_def
        cong del: if_weak_cong)
qed

subsection \<open>Slices and the sampling loop\<close>






lemma passes_Suc:
  "f g = (r, g1) \<Longrightarrow>
   passes f (Suc n) g = (r # fst (passes f n g1), snd (passes f n g1))"
  by (simp split: prod.split)

lemma passes_length: "length (fst (passes f n g)) = n"
proof (induction n arbitrary: g)
  case 0
  show ?case by simp
next
  case (Suc n)
  obtain r g1 where "f g = (r, g1)"
    by (cases "f g")
  then show ?case
    using Suc [of g1] by (simp add: passes_Suc del: passes.simps)
qed







text \<open>
  C5. \<open>load_weights\<close> raises \<open>NotImplementedError\<close> exactly for a filename that ends
  with neither \<open>.npz\<close> nor \<open>.pkl\<close>. For an \<open>.npz\<close> archive of \<open>n\<close> arrays in which
  \<open>arr_0\<close>, ..., \<open>arr_{n-1}\<close> are the arrays \<open>vs\<close>, it passes \<open>vs\<close>, in index order,
  to \<open>set_all_param_values\<close> for the layer; for a \<open>.pkl\<close> file holding a dict it
  passes the dict's \<open>'param values'\<close> entry; and whenever \<open>set_all_param_values\<close>
  returns, the parameter values of the layer are the values passed.
\<close>

theorem load_weights_formats:
  "(load_weights env layer filename = Inl NotImplementedError
      \<longleftrightarrow> \<not> endswith filename ''.npz'' \<and> \<not> endswith filename ''.pkl'')
   \<and> (endswith filename ''.npz'' \<longrightarrow> files env filename = Some (Npz f) \<longrightarrow>
        length vs = length f \<longrightarrow> (\<forall>i<length f. map_of f (arr_name i) = Some (vs ! i)) \<longrightarrow>
        load_weights env layer filename = set_all_param_values env [layer] vs)
   \<and> (endswith filename ''.pkl'' \<longrightarrow> files env filename = Some (Pkl (PDict d)) \<longrightarrow>
        map_of d ''param values'' = Some vs' \<longrightarrow>
        load_weights env layer filename = set_all_param_values env [layer] vs')
   \<and> (\<forall>vals env'. set_all_param_values env [layer] vals = Inr env' \<longrightarrow>
        get_all_param_values env' [layer] = vals)"
proof (intro conjI impI allI)
  show "load_weights env layer filename = Inl NotImplementedError
      \<longleftrightarrow> \<not> endswith filename ''.npz'' \<and> \<not> endswith filename ''.pkl''"
    by (rule load_weights_NotImplemented)
next
  assume "endswith filename ''.npz''" "files env filename = Some (Npz f)" "length vs = length f"
    "\<forall>i<length f. map_of f (arr_name i) = Some (vs ! i)"
  then show "load_weights env layer filename = set_all_param_values env [layer] vs"
    by (intro load_weights_npz) auto
next
  assume "endswith filename ''.pkl''" "files env filename = Some (Pkl (PDict d))"
    "map_of d ''param values'' = Some vs'"
  then show "load_weights env layer filename = set_all_param_values env [layer] vs'"
    by (rule load_weights_pkl)
next
  fix vals env'
  assume "set_all_param_values env [layer] vals = Inr env'"
  then show "get_all_param_values env' [layer] = vals"
    by (simp add: set_all_param_values_result)
qed

theorem load_weights_formats_witness:
  "load_weights
     \<lparr>files = [''w.npz'' \<mapsto> Npz [(''arr_0'', Ndarray [1] [5]), (''arr_1'', Ndarray [1] [7])],
               ''w.pkl'' \<mapsto> Pkl (PDict [(''param values'', [Ndarray [1] [5], Ndarray [1] [7]])])],
      pvals = (\<lambda>p. Ndarray [1] [0::int]), stdout = []\<rparr>
     (DenseLayer (InputLayer None [4] ''in'') 3 None None None None) ''w.txt''
     = Inl NotImplementedError
   \<and> (\<exists>env'.
        load_weights
          \<lparr>files = [''w.npz'' \<mapsto> Npz [(''arr_0'', Ndarray [1] [5]), (''arr_1'', Ndarray [1] [7])],
               ''w.pkl'' \<mapsto> Pkl (PDict [(''param values'', [Ndarray [1] [5], Ndarray [1] [7]])])],
           pvals = (\<lambda>p. Ndarray [1] [0::int]), stdout = []\<rparr>
          (DenseLayer (InputLayer None [4] ''in'') 3 None None None None) ''w.npz'' = Inr env'
        \<and> get_all_param_values env' [DenseLayer (InputLayer None [4] ''in'') 3 None None None None]
            = [Ndarray [1] [5], Ndarray [1] [7]])
   \<and> (\<exists>env'.
        load_weights
          \<lparr>files = [''w.npz'' \<mapsto> Npz [(''arr_0'', Ndarray [1] [5]), (''arr_1'', Ndarray [1] [7])],
               ''w.pkl'' \<mapsto> Pkl (PDict [(''param values'', [Ndarray [1] [5], Ndarray [1] [7]])])],
           pvals = (\<lambda>p. Ndarray [1] [0::int]), stdout = []\<rparr>
          (DenseLayer (InputLayer None [4] ''in'') 3 None None None None) ''w.pkl'' = Inr env'
        \<and> get_all_param_values env' [DenseLayer (InputLayer None [4] ''in'') 3 None None None None]
            = [Ndarray [1] [5], Ndarray [1] [7]])"
proof -
  let ?L = "DenseLayer (InputLayer None [4] ''in'') 3 None None None None"
  let ?f = "[(''arr_0'', Ndarray [1] [5]), (''arr_1'', Ndarray [1] [7::int])]"
  let ?d = "[(''param values'', [Ndarray [1] [5], Ndarray [1] [7::int]])]"
  let ?vs = "[Ndarray [1] [5], Ndarray [1] [7::int]]"
  let ?env = "\<lparr>files = [''w.npz'' \<mapsto> Npz ?f, ''w.pkl'' \<mapsto> Pkl (PDict ?d)],
      pvals = (\<lambda>p. Ndarray [1] [0::int]), stdout = []\<rparr>"
  have names: "\<forall>i<length ?f. map_of ?f (arr_name i) = Some (?vs ! i)"
    by (simp add: less_Suc_eq arr_name_0 arr_name_1)
  have "\<exists>env'. set_all_param_values ?env [?L] ?vs = Inr env'"
    by (rule set_all_param_values_ok) (auto simp: get_all_params_dense_on_input less_Suc_eq)
  then obtain env' where set: "set_all_param_values ?env [?L] ?vs = Inr env'"
    by blast
  have t1: "load_weights ?env ?L ''w.txt'' = Inl NotImplementedError"
    using load_weights_formats [of ?env ?L "''w.txt''"] by (simp add: endswith_def)
  have t2: "load_weights ?env ?L ''w.npz'' = set_all_param_values ?env [?L] ?vs"
    using load_weights_formats [of ?env ?L "''w.npz''" ?f ?vs] names by (simp add: endswith_def)
  have t3: "load_weights ?env ?L ''w.pkl'' = set_all_param_values ?env [?L] ?vs"
    using load_weights_formats [of ?env ?L "''w.pkl''" _ _ ?d ?vs] by (simp add: endswith_def)
  have t4: "get_all_param_values env' [?L] = ?vs"
    using load_weights_formats [of ?env ?L] set by blast
  from t1 t2 t3 t4 set show ?thesis
    by simp
qed

text \<open>
  C3. Saving the weights of a layer to a filename ending in \<open>.npz\<close> and loading that
  file on the same layer returns, and leaves every parameter with the value it had:
  the list of parameter arrays of the network is the list that was saved. The same
  load restores the saved list after the parameters were given other values of the
  same shapes.
\<close>

theorem save_load_roundtrip:
  assumes "endswith filename ''.npz''"
  shows "\<exists>env1 env2.
           save_weights env layer filename = Inr env1
         \<and> load_weights env1 layer filename = Inr env2
         \<and> get_all_param_values env2 [layer] = get_all_param_values env [layer]
         \<and> pvals env2 = pvals env
         \<and> (\<forall>env'. files env' filename = files env1 filename \<longrightarrow>
              list_all (\<lambda>p. shape (pvals env' p) = shape (pvals env p)) (get_all_params [layer]) \<longrightarrow>
              (\<exists>env3. load_weights env' layer filename = Inr env3
                 \<and> get_all_param_values env3 [layer] = get_all_param_values env [layer]))"
proof -
  let ?vs = "get_all_param_values env [layer]"
  let ?env1 = "write_file env filename (savez ?vs)"
  have save: "save_weights env layer filename = Inr ?env1"
    using assms by (rule save_weights_npz)
  have written: "files ?env1 filename = Some (savez ?vs)"
    by simp
  obtain env2 where load: "load_weights ?env1 layer filename = Inr env2"
    and vals: "get_all_param_values env2 [layer] = ?vs"
    and other: "\<forall>p. p \<notin> set (get_all_params [layer]) \<longrightarrow> pvals env2 p = pvals ?env1 p"
    using load_saved [OF assms written] by auto
  have "pvals env2 p = pvals env p" for p
  proof (cases "p \<in> set (get_all_params [layer])")
    case True
    with vals show ?thesis
      by (simp add: get_all_param_values_def)
  next
    case False
    with other show ?thesis
      by (cases p) auto
  qed
  then have same: "pvals env2 = pvals env"
    by (rule ext)
  have later: "\<exists>env3. load_weights env' layer filename = Inr env3
      \<and> get_all_param_values env3 [layer] = ?vs"
    if "files env' filename = files ?env1 filename"
      and "list_all (\<lambda>p. shape (pvals env' p) = shape (pvals env p)) (get_all_params [layer])"
    for env'
    using load_saved [OF assms, of env' env layer] that by (auto simp: list_all_iff)
  from save load vals same later show ?thesis
    by blast
qed

theorem save_load_roundtrip_witness:
  "endswith ''w.npz'' ''.npz''
   \<and> (\<exists>env1 env2.
        save_weights \<lparr>files = Map.empty, pvals = (\<lambda>p. Ndarray [1] [snd p]), stdout = []\<rparr>
          (DenseLayer (InputLayer None [4] ''in'') 3 None None None None) ''w.npz'' = Inr env1
      \<and> load_weights env1 (DenseLayer (InputLayer None [4] ''in'') 3 None None None None)
          ''w.npz'' = Inr env2
      \<and> get_all_param_values env2 [DenseLayer (InputLayer None [4] ''in'') 3 None None None None]
          = [Ndarray [1] [''W''], Ndarray [1] [''b'']])"
proof -
  let ?L = "DenseLayer (InputLayer None [4] ''in'') 3 None None None None"
  let ?env = "\<lparr>files = Map.empty, pvals = (\<lambda>p. Ndarray [1] [snd p]), stdout = []\<rparr>
    :: string env"
  have e: "endswith ''w.npz'' ''.npz''"
    by (simp add: endswith_def)
  have "get_all_param_values ?env [?L] = [Ndarray [1] [''W''], Ndarray [1] [''b'']]"
    by (simp add: get_all_param_values_def get_all_params_dense_on_input)
  with save_load_roundtrip [OF e, of ?env ?L] e show ?thesis
    by auto
qed

text \<open>
  C4, as amended. For a filename ending in \<open>.npz\<close>, \<open>save_weights\<close> returns and has
  written to that file an archive from which \<open>arr_0\<close>, \<open>arr_1\<close>, ... read back the
  layer's parameter values, and has changed no parameter and no other file. For every
  other filename, and so for every filename ending in \<open>.pkl\<close>, it raises
  \<open>NotImplementedError\<close>.
\<close>

theorem save_weights_formats:
  "(endswith filename ''.npz'' \<longrightarrow>
      (\<exists>env' f. save_weights env layer filename = Inr env'
         \<and> np_load env' filename = Inr f
         \<and> mapE (\<lambda>i. od_getitem f (arr_name i)) [0..<length (od_keys f)]
             = Inr (get_all_param_values env [layer])
         \<and> pvals env' = pvals env
         \<and> (\<forall>other. other \<noteq> filename \<longrightarrow> files env' other = files env other)))
   \<and> (\<not> endswith filename ''.npz'' \<longrightarrow>
        save_weights env layer filename = Inl NotImplementedError)
   \<and> (endswith filename ''.pkl'' \<longrightarrow>
        save_weights env layer filename = Inl NotImplementedError)"
proof (intro conjI impI)
  let ?vs = "get_all_param_values env [layer]"
  assume "endswith filename ''.npz''"
  then have "save_weights env layer filename = Inr (write_file env filename (savez ?vs))"
    by (rule save_weights_npz)
  moreover have "np_load (write_file env filename (savez ?vs)) filename
      = Inr (zip (map arr_name [0..<length ?vs]) ?vs)"
    by (simp add: np_load_def savez_def)
  ultimately show "\<exists>env' f. save_weights env layer filename = Inr env'
         \<and> np_load env' filename = Inr f
         \<and> mapE (\<lambda>i. od_getitem f (arr_name i)) [0..<length (od_keys f)] = Inr ?vs
         \<and> pvals env' = pvals env
         \<and> (\<forall>other. other \<noteq> filename \<longrightarrow> files env' other = files env other)"
    using read_savez [of ?vs] by simp
next
  assume "\<not> endswith filename ''.npz''"
  then show "save_weights env layer filename = Inl NotImplementedError"
    by (simp add: save_weights_def)
next
  assume "endswith filename ''.pkl''"
  then have "\<not> endswith filename ''.npz''"
    by (rule endswith_pkl_not_npz)
  then show "save_weights env layer filename = Inl NotImplementedError"
    by (simp add: save_weights_def)
qed

theorem save_weights_formats_witness:
  "endswith ''w.npz'' ''.npz'' \<and> endswith ''w.pkl'' ''.pkl'' \<and> \<not> endswith ''w.txt'' ''.npz''
   \<and> (\<exists>env'. save_weights \<lparr>files = Map.empty, pvals = (\<lambda>p. Ndarray [1] [snd p]), stdout = []\<rparr>
          (DenseLayer (InputLayer None [4] ''in'') 3 None None None None) ''w.npz'' = Inr env'
        \<and> np_load env' ''w.npz''
            = Inr [(''arr_0'', Ndarray [1] [''W'']), (''arr_1'', Ndarray [1] [''b''])])
   \<and> save_weights \<lparr>files = Map.empty, pvals = (\<lambda>p. Ndarray [1] [snd p]), stdout = []\<rparr>
        (DenseLayer (InputLayer None [4] ''in'') 3 None None None None) ''w.pkl''
        = Inl NotImplementedError
   \<and> save_weights \<lparr>files = Map.empty, pvals = (\<lambda>p. Ndarray [1] [snd p]), stdout = []\<rparr>
        (DenseLayer (InputLayer None [4] ''in'') 3 None None None None) ''w.txt''
        = Inl NotImplementedError"
proof -
  let ?L = "DenseLayer (InputLayer None [4] ''in'') 3 None None None None"
  let ?env = "\<lparr>files = Map.empty, pvals = (\<lambda>p. Ndarray [1] [snd p]), stdout = []\<rparr>
    :: string env"
  have e: "endswith ''w.npz'' ''.npz''" "endswith ''w.pkl'' ''.pkl''"
    "\<not> endswith ''w.txt'' ''.npz''"
    by (simp_all add: endswith_def)
  have vs: "get_all_param_values ?env [?L] = [Ndarray [1] [''W''], Ndarray [1] [''b'']]"
    by (simp add: get_all_param_values_def get_all_params_dense_on_input)
  have s: "save_weights ?env ?L ''w.npz''
      = Inr (write_file ?env ''w.npz'' (savez [Ndarray [1] [''W''], Ndarray [1] [''b'']]))"
    using e(1) vs by (simp add: save_weights_def)
  have l: "np_load (write_file ?env ''w.npz'' (savez [Ndarray [1] [''W''], Ndarray [1] [''b'']]))
      ''w.npz'' = Inr [(''arr_0'', Ndarray [1] [''W'']), (''arr_1'', Ndarray [1] [''b''])]"
    by (simp add: np_load_def savez_def upt_rec [of 0] upt_rec [of "Suc 0"] arr_name_0 arr_name_1)
  from save_weights_formats [of "''w.npz''" ?env ?L] save_weights_formats [of "''w.pkl''" ?env ?L]
    save_weights_formats [of "''w.txt''" ?env ?L] e s l
  show ?thesis
    by simp
qed

text \<open>
  C4 as stated fails: a filename ending in \<open>.pkl\<close> is refused with
  \<open>NotImplementedError\<close>.
\<close>

theorem save_weights_pkl_raises:
  "save_weights \<lparr>files = Map.empty, pvals = (\<lambda>p. Ndarray [1] [0::int]), stdout = []\<rparr>
     (DenseLayer (InputLayer None [4] ''in'') 3 None None None None) ''weights.pkl''
   = Inl NotImplementedError"
  by (simp add: save_weights_def endswith_def)

text \<open>
  C9, as amended. For the network that \<open>JFnet.build_model\<close> returns, the removal
  loop completes normally if and only if the last layer is one of the network's keys,
  and if it is not, the loop raises \<open>IndexError\<close>: the dict has been emptied and the
  loop condition \<open>network.keys()[-1]\<close> is evaluated on it before any further
  \<open>popitem\<close>.
\<close>

theorem remove_layers_after_completes:
  assumes "build_model env width height filename n_classes batch_size p_conv
      = Inr (network, env')"
  shows "od_keys network = layer_keys
    \<and> ((\<exists>kept. remove_layers_after network last_layer = Inr kept)
          \<longleftrightarrow> last_layer \<in> set layer_keys)
    \<and> (remove_layers_after network last_layer = Inl IndexError
          \<longleftrightarrow> last_layer \<notin> set layer_keys)"
proof -
  have keys: "od_keys network = layer_keys"
    using assms by (rule build_model_network_keys)
  have "remove_layers_after network last_layer = Inl IndexError"
    if "last_layer \<notin> set layer_keys"
    using that keys remove_layers_after_missing [of last_layer network] by simp
  moreover have "\<exists>kept. remove_layers_after network last_layer = Inr kept"
    if "last_layer \<in> set layer_keys"
    using that keys remove_layers_after_iff [of network last_layer] by simp
  ultimately show ?thesis
    using keys by (cases "last_layer \<in> set layer_keys") auto
qed

theorem remove_layers_after_completes_witness:
  "\<exists>network.
      build_model \<lparr>files = Map.empty, pvals = (\<lambda>p. Ndarray [] ([] :: int list)), stdout = []\<rparr>
        512 512 None 5 None 0
        = Inr (network, \<lparr>files = Map.empty, pvals = (\<lambda>p. Ndarray [] []), stdout = []\<rparr>)
    \<and> (\<exists>kept. remove_layers_after network ''13'' = Inr kept)
    \<and> remove_layers_after network ''32'' = Inl IndexError"
proof -
  let ?env = "\<lparr>files = Map.empty, pvals = (\<lambda>p. Ndarray [] ([] :: int list)), stdout = []\<rparr>"
  obtain network where b: "build_model ?env 512 512 None 5 None 0 = Inr (network, ?env)"
    using build_model_None_keys by blast
  have "\<exists>kept. remove_layers_after network ''13'' = Inr kept"
    using remove_layers_after_completes [OF b, of "''13''"] by (simp add: layer_keys_def)
  moreover have "remove_layers_after network ''32'' = Inl IndexError"
    using remove_layers_after_completes [OF b, of "''32''"] by (simp add: layer_keys_def)
  ultimately show ?thesis
    using b by blast
qed

text \<open>
  C9 as stated fails: with a last layer that is not a key, the exception that ends the
  loop is \<open>IndexError\<close>, raised by \<open>network.keys()[-1]\<close> on the emptied dict, and
  not \<open>KeyError\<close> from \<open>popitem\<close>.
\<close>

theorem remove_layers_after_not_KeyError:
  "bindE (build_model \<lparr>files = Map.empty, pvals = (\<lambda>p. Ndarray [] ([] :: int list)),
            stdout = []\<rparr> 512 512 None 5 None 0)
     (\<lambda>(network, env). remove_layers_after network ''32'') = Inl IndexError
   \<and> bindE (build_model \<lparr>files = Map.empty, pvals = (\<lambda>p. Ndarray [] ([] :: int list)),
            stdout = []\<rparr> 512 512 None 5 None 0)
     (\<lambda>(network, env). remove_layers_after network ''32'') \<noteq> Inl KeyError"
proof -
  let ?env = "\<lparr>files = Map.empty, pvals = (\<lambda>p. Ndarray [] ([] :: int list)), stdout = []\<rparr>"
  obtain network where b: "build_model ?env 512 512 None 5 None 0 = Inr (network, ?env)"
    and keys: "od_keys network = layer_keys"
    using build_model_None_keys by blast
  have "''32'' \<notin> set (od_keys network)"
    by (simp add: keys layer_keys_def)
  then have "remove_layers_after network ''32'' = Inl IndexError"
    by (rule remove_layers_after_missing)
  with b show ?thesis
    by simp
qed

text \<open>
  C2. Let \<open>JFnet.build_model\<close>, as \<open>BCNN.__init__\<close> calls it, return a network of
  which the last layer is a key. Then the removal loop keeps the entries up to the last
  layer and drops exactly the entries after it, and a \<open>BCNN.__init__\<close> that returns
  (as it does when no weight file is given) returns a model whose network is the
  entries kept followed by \<open>'global_pool'\<close>, \<open>'softmax_input'\<close> and \<open>'logreg'\<close>, in
  this order, with the layer \<open>'logreg'\<close> as its output layer.
\<close>

theorem BCNN_init_layers:
  assumes "build_model env 512 512 (Some ORIGINAL_WEIGHTS) 5 None p_conv = Inr (network, env1)"
    and "last_layer \<in> set (od_keys network)"
  shows "\<exists>kept l dropped.
           network = kept @ (last_layer, l) # dropped
         \<and> last_layer \<notin> set (od_keys kept) \<and> last_layer \<notin> set (od_keys dropped)
         \<and> remove_layers_after network last_layer = Inr (kept @ [(last_layer, l)])
         \<and> (case BCNN_init env p_conv last_layer weights n_classes of
              Inr (m, env2) \<Rightarrow>
                self_net m = kept @ (last_layer, l) # head_layers l n_classes
              \<and> od_keys (self_net m)
                  = od_keys kept @ [last_layer, ''global_pool'', ''softmax_input'', ''logreg'']
              \<and> od_getitem (self_net m) ''logreg'' = get_output_layer m
              \<and> get_output_layer m = Inr (logreg_layer l n_classes)
            | Inl e \<Rightarrow> weights \<noteq> None)"
proof -
  obtain kept l dropped where split: "network = kept @ (last_layer, l) # dropped"
    and nk: "last_layer \<notin> set (od_keys kept)" and nd: "last_layer \<notin> set (od_keys dropped)"
    and loop: "remove_layers_after network last_layer = Inr (kept @ [(last_layer, l)])"
    and init: "\<And>weights n_classes. BCNN_init env p_conv last_layer weights n_classes =
      bindE (case weights of None \<Rightarrow> Inr env1
             | Some f \<Rightarrow> load_weights env1 (logreg_layer l n_classes) f)
        (\<lambda>env2. Inr (BCNN_model (kept @ (last_layer, l) # head_layers l n_classes), env2))"
    using BCNN_init_structure [OF assms] by blast
  let ?N = "kept @ (last_layer, l) # head_layers l n_classes"
  have keys: "od_keys network = layer_keys"
    using assms(1) by (rule build_model_network_keys)
  have net: "self_net (BCNN_model ?N) = ?N"
    by (simp add: BCNN_model_def Model_init_def)
  have ks: "od_keys ?N = od_keys kept @ [last_layer, ''global_pool'', ''softmax_input'', ''logreg'']"
    by (simp add: od_keys_def head_layers_def Let_def)
  have out: "get_output_layer (BCNN_model ?N) = Inr (logreg_layer l n_classes)"
    by (simp only: get_output_layer_def net)
      (simp add: last_item_def od_values_def head_layers_def logreg_layer_def Let_def)
  have "layer_keys = od_keys kept @ last_layer # od_keys dropped"
    using split keys [symmetric] by (simp add: od_keys_def)
  then have "set layer_keys = set (od_keys kept @ last_layer # od_keys dropped)"
    by (rule arg_cong)
  then have "set (od_keys kept) \<subseteq> set layer_keys" and "last_layer \<in> set layer_keys"
    by auto
  then have "''logreg'' \<notin> set (od_keys (kept @ [(last_layer, l), (''global_pool'', gp),
      (''softmax_input'', si)]))" for gp si
    using head_keys_new by (auto simp: od_keys_def)
  then have get: "od_getitem ?N ''logreg'' = Inr (logreg_layer l n_classes)"
    using od_getitem_snoc [of "''logreg''" "kept @ [(last_layer, l), (''global_pool'', gp),
      (''softmax_input'', si)]" for gp si]
    by (simp add: head_layers_def logreg_layer_def Let_def)
  have "case BCNN_init env p_conv last_layer weights n_classes of
          Inr (m, env2) \<Rightarrow>
            self_net m = ?N
          \<and> od_keys (self_net m)
              = od_keys kept @ [last_layer, ''global_pool'', ''softmax_input'', ''logreg'']
          \<and> od_getitem (self_net m) ''logreg'' = get_output_layer m
          \<and> get_output_layer m = Inr (logreg_layer l n_classes)
        | Inl e \<Rightarrow> weights \<noteq> None"
  proof (cases weights)
    case None
    then show ?thesis
      by (simp add: init net ks out get)
  next
    case (Some f)
    then show ?thesis
      by (cases "load_weights env1 (logreg_layer l n_classes) f")
        (simp_all add: init net ks out get)
  qed
  with split nk nd loop show ?thesis
    by blast
qed


theorem BCNN_init_layers_witness:
  "\<exists>network env1 m env2.
      build_model
        \<lparr>files = [ORIGINAL_WEIGHTS \<mapsto> Pkl (PList (replicate 32 (Ndarray [1] [0])))],
         pvals = (\<lambda>p. Ndarray [1] [0::int]), stdout = []\<rparr>
        512 512 (Some ORIGINAL_WEIGHTS) 5 None 0.2 = Inr (network, env1)
    \<and> ''13'' \<in> set (od_keys network)
    \<and> BCNN_init
        \<lparr>files = [ORIGINAL_WEIGHTS \<mapsto> Pkl (PList (replicate 32 (Ndarray [1] [0])))],
         pvals = (\<lambda>p. Ndarray [1] [0::int]), stdout = []\<rparr>
        0.2 ''13'' None 2 = Inr (m, env2)
    \<and> od_keys (self_net m) =
          [''0'', ''1'', ''1d'', ''2'', ''3'', ''3d'', ''4'', ''4d'', ''5'', ''6'', ''6d'',
           ''7'', ''7d'', ''8'', ''9'', ''9d'', ''10'', ''10d'', ''11'', ''11d'', ''12'',
           ''12d'', ''13'', ''global_pool'', ''softmax_input'', ''logreg'']
    \<and> od_getitem (self_net m) ''logreg'' = get_output_layer m"
proof -
  let ?env = "\<lparr>files = [ORIGINAL_WEIGHTS \<mapsto> Pkl (PList (replicate 32 (Ndarray [1] [0])))],
         pvals = (\<lambda>p. Ndarray [1] [0::int]), stdout = []\<rparr>"
  have "\<exists>network env1. build_model ?env 512 512 (Some ORIGINAL_WEIGHTS) 5 None 0.2
      = Inr (network, env1) \<and> declare_layers 512 512 5 None 0.2 = Inr network
      \<and> files env1 = files ?env \<and> stdout env1 = stdout ?env
      \<and> (\<forall>q. shape (pvals env1 q) = [1])"
    by (rule build_model_file [where vs = "replicate 32 (Ndarray [1] [0])"]) simp_all
  then obtain network env1
    where b: "build_model ?env 512 512 (Some ORIGINAL_WEIGHTS) 5 None 0.2 = Inr (network, env1)"
    by blast
  have keys: "od_keys network = layer_keys"
    using b by (rule build_model_network_keys)
  then have k: "''13'' \<in> set (od_keys network)"
    by (simp add: layer_keys_def)
  obtain kept l dropped where split: "network = kept @ (''13'', l) # dropped"
    and nk: "''13'' \<notin> set (od_keys kept)"
    and r: "case BCNN_init ?env 0.2 ''13'' None 2 of
              Inr (m, env2) \<Rightarrow>
                self_net m = kept @ (''13'', l) # head_layers l 2
              \<and> od_keys (self_net m)
                  = od_keys kept @ [''13'', ''global_pool'', ''softmax_input'', ''logreg'']
              \<and> od_getitem (self_net m) ''logreg'' = get_output_layer m
              \<and> get_output_layer m = Inr (logreg_layer l 2)
            | Inl e \<Rightarrow> (None :: string option) \<noteq> None"
    using BCNN_init_layers [OF b k, of None 2] by blast
  from split keys have "od_keys kept @ ''13'' # od_keys dropped = layer_keys"
    by (simp add: od_keys_def)
  then have "od_keys kept = takeWhile (\<lambda>x. x \<noteq> ''13'') layer_keys"
    using nk by (rule split_at_key)
  then have kk: "od_keys kept = [''0'', ''1'', ''1d'', ''2'', ''3'', ''3d'', ''4'', ''4d'', ''5'', ''6'', ''6d'',
        ''7'', ''7d'', ''8'', ''9'', ''9d'', ''10'', ''10d'', ''11'', ''11d'', ''12'',
        ''12d'']"
    by (simp add: layer_keys_def)
  obtain m env2 where i: "BCNN_init ?env 0.2 ''13'' None 2 = Inr (m, env2)"
    using r by (cases "BCNN_init ?env 0.2 ''13'' None 2") auto
  from r [unfolded i sum.case prod.case] have "self_net m = kept @ (''13'', l) # head_layers l 2
      \<and> od_keys (self_net m)
          = od_keys kept @ [''13'', ''global_pool'', ''softmax_input'', ''logreg'']
      \<and> od_getitem (self_net m) ''logreg'' = get_output_layer m
      \<and> get_output_layer m = Inr (logreg_layer l 2)" .
  then have "od_keys (self_net m)
      = od_keys kept @ [''13'', ''global_pool'', ''softmax_input'', ''logreg'']"
    and g: "od_getitem (self_net m) ''logreg'' = get_output_layer m"
    by blast+
  then have "od_keys (self_net m) =
          [''0'', ''1'', ''1d'', ''2'', ''3'', ''3d'', ''4'', ''4d'', ''5'', ''6'', ''6d'',
           ''7'', ''7d'', ''8'', ''9'', ''9d'', ''10'', ''10d'', ''11'', ''11d'', ''12'',
           ''12d'', ''13'', ''global_pool'', ''softmax_input'', ''logreg'']"
    by (simp add: kk)
  with b k i g show ?thesis
    by blast
qed

text \<open>
  C8. \<open>weights2pickle\<close> raises \<open>AssertionError\<close> for every name other than
  \<open>'bcnn1'\<close> and \<open>'bcnn2'\<close>. For these two names it constructs the model from the
  weight file of the name; an exception of the construction is raised on. Once the
  model is constructed, it raises \<open>AssertionError\<close> for every output layer that is not
  a key of the model's network; for an output layer that is a key, it drops the
  entries after it, so that the last key is the output layer, and writes the pickled
  model to the file \<open>name_hash_outputlayer.pkl\<close>.
\<close>

theorem weights2pickle_result:
  "(name \<noteq> ''bcnn1'' \<and> name \<noteq> ''bcnn2'' \<longrightarrow>
      weights2pickle env name output_layer = Inl AssertionError)
   \<and> (name = ''bcnn1'' \<or> name = ''bcnn2'' \<longrightarrow>
      (\<forall>e. BCNN_init env 0.2 ''17''
              (Some (''models/weights_'' @ name @ ''_'' @ model_hash name @ ''.npz'')) 2 = Inl e
           \<longrightarrow> weights2pickle env name output_layer = Inl e)
    \<and> (\<forall>m env1. BCNN_init env 0.2 ''17''
              (Some (''models/weights_'' @ name @ ''_'' @ model_hash name @ ''.npz'')) 2
              = Inr (m, env1) \<longrightarrow>
          (output_layer \<notin> set (od_keys (self_net m)) \<longrightarrow>
             weights2pickle env name output_layer = Inl AssertionError)
        \<and> (output_layer \<in> set (od_keys (self_net m)) \<longrightarrow>
             (\<exists>kept l dropped env2.
                 self_net m = kept @ (output_layer, l) # dropped
               \<and> output_layer \<notin> set (od_keys dropped)
               \<and> last (od_keys (kept @ [(output_layer, l)])) = output_layer
               \<and> weights2pickle env name output_layer = Inr env2
               \<and> files env2 = (files env1)
                    (name @ ''_'' @ model_hash name @ ''_'' @ output_layer @ ''.pkl'' \<mapsto>
                     Pkl (PModel (m\<lparr>self_net := kept @ [(output_layer, l)]\<rparr>)
                       (get_all_param_values env1 (od_values (kept @ [(output_layer, l)])))))
               \<and> pvals env2 = pvals env1
               \<and> stdout env2 = stdout env1 @ [''Saved model to '' @ name @ ''_''
                    @ model_hash name @ ''_'' @ output_layer @ ''.pkl'']))))"
proof (intro conjI impI allI)
  assume "name \<noteq> ''bcnn1'' \<and> name \<noteq> ''bcnn2''"
  then show "weights2pickle env name output_layer = Inl AssertionError"
    by (simp add: weights2pickle_def)
next
  fix e
  assume "name = ''bcnn1'' \<or> name = ''bcnn2''"
    and "BCNN_init env 0.2 ''17''
          (Some (''models/weights_'' @ name @ ''_'' @ model_hash name @ ''.npz'')) 2 = Inl e"
  then show "weights2pickle env name output_layer = Inl e"
    by (simp add: weights2pickle_valid_name)
next
  fix m env1
  assume "name = ''bcnn1'' \<or> name = ''bcnn2''"
    and "BCNN_init env 0.2 ''17''
          (Some (''models/weights_'' @ name @ ''_'' @ model_hash name @ ''.npz'')) 2
          = Inr (m, env1)"
    and "output_layer \<notin> set (od_keys (self_net m))"
  then show "weights2pickle env name output_layer = Inl AssertionError"
    by (simp add: weights2pickle_valid_name)
next
  fix m env1
  let ?out = "name @ ''_'' @ model_hash name @ ''_'' @ output_layer @ ''.pkl''"
  assume name: "name = ''bcnn1'' \<or> name = ''bcnn2''"
    and init: "BCNN_init env 0.2 ''17''
          (Some (''models/weights_'' @ name @ ''_'' @ model_hash name @ ''.npz'')) 2
          = Inr (m, env1)"
    and key: "output_layer \<in> set (od_keys (self_net m))"
  obtain kept dropped l where split: "self_net m = kept @ (output_layer, l) # dropped"
    and nd: "output_layer \<notin> set (od_keys dropped)"
    and loop: "remove_layers_after (self_net m) output_layer = Inr (kept @ [(output_layer, l)])"
    using remove_layers_after_found [OF key] by blast
  let ?network = "kept @ [(output_layer, l)]"
  let ?env2 = "(save_model env1 (m\<lparr>self_net := ?network\<rparr>) ?out)
      \<lparr>stdout := stdout env1 @ [''Saved model to '' @ ?out]\<rparr>"
  have lst: "last (od_keys ?network) = output_layer"
    by (simp add: od_keys_def)
  have "weights2pickle env name output_layer = Inr ?env2"
    unfolding weights2pickle_valid_name [OF name] init
    using key by (simp add: loop last_item_def od_keys_def)
  moreover have "files ?env2 = (files env1)(?out \<mapsto>
      Pkl (PModel (m\<lparr>self_net := ?network\<rparr>) (get_all_param_values env1 (od_values ?network))))"
    by (simp add: save_model_def)
  moreover have "pvals ?env2 = pvals env1" and "stdout ?env2 = stdout env1 @ [''Saved model to '' @ ?out]"
    by (simp_all add: save_model_def)
  ultimately show "\<exists>kept l dropped env2.
                 self_net m = kept @ (output_layer, l) # dropped
               \<and> output_layer \<notin> set (od_keys dropped)
               \<and> last (od_keys (kept @ [(output_layer, l)])) = output_layer
               \<and> weights2pickle env name output_layer = Inr env2
               \<and> files env2 = (files env1)
                    (name @ ''_'' @ model_hash name @ ''_'' @ output_layer @ ''.pkl'' \<mapsto>
                     Pkl (PModel (m\<lparr>self_net := kept @ [(output_layer, l)]\<rparr>)
                       (get_all_param_values env1 (od_values (kept @ [(output_layer, l)])))))
               \<and> pvals env2 = pvals env1
               \<and> stdout env2 = stdout env1 @ [''Saved model to '' @ name @ ''_''
                    @ model_hash name @ ''_'' @ output_layer @ ''.pkl'']"
    using split nd lst by blast
qed

theorem weights2pickle_result_witness:
  "weights2pickle
     \<lparr>files = [ORIGINAL_WEIGHTS \<mapsto> Pkl (PList (replicate 32 (Ndarray [1] [0]))),
               ''models/weights_bcnn1_392bea6.npz'' \<mapsto> savez (replicate 28 (Ndarray [1] [0]))],
      pvals = (\<lambda>p. Ndarray [1] [0::int]), stdout = []\<rparr> ''bcnn3'' ''logreg''
     = Inl AssertionError
   \<and> weights2pickle
     \<lparr>files = [ORIGINAL_WEIGHTS \<mapsto> Pkl (PList (replicate 32 (Ndarray [1] [0]))),
               ''models/weights_bcnn1_392bea6.npz'' \<mapsto> savez (replicate 28 (Ndarray [1] [0]))],
      pvals = (\<lambda>p. Ndarray [1] [0::int]), stdout = []\<rparr> ''bcnn1'' ''18''
     = Inl AssertionError
   \<and> (\<exists>env2 m vs.
        weights2pickle
          \<lparr>files = [ORIGINAL_WEIGHTS \<mapsto> Pkl (PList (replicate 32 (Ndarray [1] [0]))),
                    ''models/weights_bcnn1_392bea6.npz'' \<mapsto>
                      savez (replicate 28 (Ndarray [1] [0]))],
           pvals = (\<lambda>p. Ndarray [1] [0::int]), stdout = []\<rparr> ''bcnn1'' ''global_pool''
          = Inr env2
      \<and> files env2 ''bcnn1_392bea6_global_pool.pkl'' = Some (Pkl (PModel m vs))
      \<and> od_keys (self_net m) =
          [''0'', ''1'', ''1d'', ''2'', ''3'', ''3d'', ''4'', ''4d'', ''5'', ''6'', ''6d'',
        ''7'', ''7d'', ''8'', ''9'', ''9d'', ''10'', ''10d'', ''11'', ''11d'', ''12'',
        ''12d'', ''13'', ''14'', ''14d'', ''15'', ''15d'', ''16'', ''16d'', ''17'',
        ''global_pool'']
      \<and> stdout env2 = [''Saved model to bcnn1_392bea6_global_pool.pkl''])"
proof -
  let ?a = "Ndarray [1] [0::int]"
  let ?w = "''models/weights_bcnn1_392bea6.npz''"
  let ?env = "\<lparr>files = [ORIGINAL_WEIGHTS \<mapsto> Pkl (PList (replicate 32 ?a)),
      ?w \<mapsto> savez (replicate 28 ?a)], pvals = (\<lambda>p. ?a), stdout = []\<rparr>"
  have names: "ORIGINAL_WEIGHTS \<noteq> ?w"
    by (simp add: ORIGINAL_WEIGHTS_def)
  have w: "''models/weights_'' @ ''bcnn1'' @ ''_'' @ model_hash ''bcnn1'' @ ''.npz'' = ?w"
    by (simp add: model_hash_def)
  have "\<exists>m env1. BCNN_init ?env 0.2 ''17'' (Some ?w) 2 = Inr (m, env1)
    \<and> od_keys (self_net m) =
        [''0'', ''1'', ''1d'', ''2'', ''3'', ''3d'', ''4'', ''4d'', ''5'', ''6'', ''6d'',
        ''7'', ''7d'', ''8'', ''9'', ''9d'', ''10'', ''10d'', ''11'', ''11d'', ''12'',
        ''12d'', ''13'', ''14'', ''14d'', ''15'', ''15d'', ''16'', ''16d'', ''17''] @ [''global_pool'', ''softmax_input'', ''logreg'']
    \<and> files env1 = files ?env \<and> stdout env1 = stdout ?env"
    by (rule BCNN_init_17 [where vs = "replicate 32 ?a" and ws = "replicate 28 ?a" and s = "[1]"])
      (simp_all add: names endswith_def)
  then obtain m env1 where init: "BCNN_init ?env 0.2 ''17'' (Some ?w) 2 = Inr (m, env1)"
    and keys: "od_keys (self_net m) =
        [''0'', ''1'', ''1d'', ''2'', ''3'', ''3d'', ''4'', ''4d'', ''5'', ''6'', ''6d'',
        ''7'', ''7d'', ''8'', ''9'', ''9d'', ''10'', ''10d'', ''11'', ''11d'', ''12'',
        ''12d'', ''13'', ''14'', ''14d'', ''15'', ''15d'', ''16'', ''16d'', ''17''] @ [''global_pool'', ''softmax_input'', ''logreg'']"
    and out1: "stdout env1 = []"
    by auto
  note result = weights2pickle_result [of "''bcnn1''" ?env, unfolded w]
  have valid: "''bcnn1'' = ''bcnn1'' \<or> ''bcnn1'' = ''bcnn2''"
    by simp
  have out: "''bcnn1'' @ ''_'' @ model_hash ''bcnn1'' @ ''_'' @ ''global_pool'' @ ''.pkl''
      = ''bcnn1_392bea6_global_pool.pkl''"
    by (simp add: model_hash_def)
  have t1: "weights2pickle ?env ''bcnn3'' ''logreg'' = Inl AssertionError"
    using weights2pickle_result [of "''bcnn3''" ?env "''logreg''"] by simp
  have "''18'' \<notin> set (od_keys (self_net m))"
    by (simp add: keys)
  with result [of "''18''"] valid init
  have t2: "weights2pickle ?env ''bcnn1'' ''18'' = Inl AssertionError"
    by blast
  have "''global_pool'' \<in> set (od_keys (self_net m))"
    by (simp add: keys)
  with result [of "''global_pool''", unfolded out] valid init
  obtain kept l dropped env2
    where split: "self_net m = kept @ (''global_pool'', l) # dropped"
      and r: "weights2pickle ?env ''bcnn1'' ''global_pool'' = Inr env2"
      and f: "files env2 = (files env1)(''bcnn1_392bea6_global_pool.pkl'' \<mapsto>
                Pkl (PModel (m\<lparr>self_net := kept @ [(''global_pool'', l)]\<rparr>)
                  (get_all_param_values env1 (od_values (kept @ [(''global_pool'', l)])))))"
      and o: "stdout env2 = stdout env1 @ [''Saved model to '' @ ''bcnn1_392bea6_global_pool.pkl'']"
    by blast
  have "od_keys kept @ ''global_pool'' # od_keys dropped =
      [''0'', ''1'', ''1d'', ''2'', ''3'', ''3d'', ''4'', ''4d'', ''5'', ''6'', ''6d'',
        ''7'', ''7d'', ''8'', ''9'', ''9d'', ''10'', ''10d'', ''11'', ''11d'', ''12'',
        ''12d'', ''13'', ''14'', ''14d'', ''15'', ''15d'', ''16'', ''16d'', ''17''] @ [''global_pool'', ''softmax_input'', ''logreg'']"
    using keys split by (simp add: od_keys_def)
  moreover have "''global_pool'' \<notin> set (od_keys kept)"
  proof -
    have "distinct (od_keys (self_net m))"
      by (simp add: keys)
    then show ?thesis
      unfolding split by (simp add: od_keys_def)
  qed
  ultimately have "od_keys kept = takeWhile (\<lambda>x. x \<noteq> ''global_pool'')
      ([''0'', ''1'', ''1d'', ''2'', ''3'', ''3d'', ''4'', ''4d'', ''5'', ''6'', ''6d'',
        ''7'', ''7d'', ''8'', ''9'', ''9d'', ''10'', ''10d'', ''11'', ''11d'', ''12'',
        ''12d'', ''13'', ''14'', ''14d'', ''15'', ''15d'', ''16'', ''16d'', ''17''] @ [''global_pool'', ''softmax_input'', ''logreg''])"
    by (rule split_at_key)
  then have "od_keys (self_net (m\<lparr>self_net := kept @ [(''global_pool'', l)]\<rparr>)) =
      [''0'', ''1'', ''1d'', ''2'', ''3'', ''3d'', ''4'', ''4d'', ''5'', ''6'', ''6d'',
        ''7'', ''7d'', ''8'', ''9'', ''9d'', ''10'', ''10d'', ''11'', ''11d'', ''12'',
        ''12d'', ''13'', ''14'', ''14d'', ''15'', ''15d'', ''16'', ''16d'', ''17'',
        ''global_pool'']"
    by (simp add: od_keys_def)
  with t1 t2 r f o out1 show ?thesis
    by auto
qed





end
